theory Spec2Isabelle
  imports Complex_Main "HOL-Library.AList"
begin

section \<open>Configuration constants of \<^verbatim>\<open>index.js\<close>\<close>

text \<open>
  The model follows the current \<^verbatim>\<open>functions/index.js\<close> of the repository (the file with
  the scheduled sweeper and the admin management routes). Strings are HOL strings and are
  read as ASCII text; the emoji of log lines and notification titles are left out.
\<close>

definition ENABLE_SOS_ALERT_SNAPSHOT :: bool where
  "ENABLE_SOS_ALERT_SNAPSHOT = True"

definition BLOCKED_USERS :: bool where
  "BLOCKED_USERS = True"

definition ALERT_EXPIRATION_THRESHOLD_MS :: int where
  "ALERT_EXPIRATION_THRESHOLD_MS = 60 * 60 * 1000"

definition SUPER_ADMINS :: "string list" where
  "SUPER_ADMINS = [''shamanthknr@gmail.com'', ''karthik.dhanya11@gmail.com'']"

section \<open>JavaScript string operations\<close>

text \<open>\<^verbatim>\<open>a || d\<close> on a possibly missing string: the empty string and undefined are falsy.\<close>

definition truthy :: "string option \<Rightarrow> bool" where
  "truthy a = (case a of None \<Rightarrow> False | Some s \<Rightarrow> s \<noteq> [])"

definition str_or :: "string option \<Rightarrow> string \<Rightarrow> string" where
  "str_or a d = (case a of None \<Rightarrow> d | Some s \<Rightarrow> if s = [] then d else s)"

definition lower_letters :: string where
  "lower_letters = ''abcdefghijklmnopqrstuvwxyz''"

definition upper_letters :: string where
  "upper_letters = ''ABCDEFGHIJKLMNOPQRSTUVWXYZ''"

definition upper_char :: "char \<Rightarrow> char" where
  "upper_char c = (case map_of (zip lower_letters upper_letters) c of None \<Rightarrow> c | Some u \<Rightarrow> u)"

definition lower_char :: "char \<Rightarrow> char" where
  "lower_char c = (case map_of (zip upper_letters lower_letters) c of None \<Rightarrow> c | Some l \<Rightarrow> l)"

definition toUpperCase :: "string \<Rightarrow> string" where
  "toUpperCase s = map upper_char s"

definition toLowerCase :: "string \<Rightarrow> string" where
  "toLowerCase s = map lower_char s"

text \<open>The white space that \<^verbatim>\<open>trim\<close> and the regular expression class \<^verbatim>\<open>\s\<close> remove,
  in the ASCII range: tab, line feed, vertical tab, form feed, carriage return, space.\<close>

definition is_space :: "char \<Rightarrow> bool" where
  "is_space c = (c \<in> set [CHR 0x09, CHR 0x0A, CHR 0x0B, CHR 0x0C, CHR 0x0D, CHR 0x20])"

definition trim :: "string \<Rightarrow> string" where
  "trim s = rev (dropWhile is_space (rev (dropWhile is_space s)))"

text \<open>\<^verbatim>\<open>s.split(',').pop()\<close>: the text after the last comma, the whole string when
  there is none.\<close>

definition last_segment :: "string \<Rightarrow> string" where
  "last_segment s = rev (takeWhile (\<lambda>c. c \<noteq> CHR '','') (rev s))"

text \<open>The class \<^verbatim>\<open>\w\<close>.\<close>

definition is_word :: "char \<Rightarrow> bool" where
  "is_word c = (c \<in> set (lower_letters @ upper_letters @ ''0123456789_''))"

text \<open>\<^verbatim>\<open>s.replace(/\b\w/g, l => l.toUpperCase())\<close>: a word character is upper-cased
  when the character before it is not a word character (or there is none). The flag says
  whether the previous character was a word character.\<close>

fun cap_words :: "bool \<Rightarrow> string \<Rightarrow> string" where
  "cap_words prev [] = []"
| "cap_words prev (c # cs) =
     (if is_word c \<and> \<not> prev then upper_char c else c) # cap_words (is_word c) cs"

text \<open>\<^verbatim>\<open>district.replace(/_/g, ' ').replace(/\b\w/g, l => l.toUpperCase())\<close>\<close>

definition district_title :: "string \<Rightarrow> string" where
  "district_title d = cap_words False (map (\<lambda>c. if c = CHR ''_'' then CHR '' '' else c) d)"

text \<open>\<^verbatim>\<open>userLocation.split(',').pop().trim().toUpperCase()\<close>\<close>

definition derive_state :: "string \<Rightarrow> string" where
  "derive_state userLocation = toUpperCase (trim (last_segment userLocation))"

section \<open>Data model\<close>

text \<open>The request body of \<^verbatim>\<open>POST /sos\<close>. A field that the body omits is \<open>None\<close>. The
  fields have the types that the README documents; JSON values of another type are not
  modelled.\<close>

record geo =
  latitude :: real
  longitude :: real
  accuracy :: real

record userInfo_t =
  ui_district :: "string option"
  ui_name :: "string option"
  ui_location :: "string option"
  ui_phone :: "string option"
  ui_mobile_number :: "string option"
  ui_message :: "string option"

record sos_request =
  sender_id :: "string option"
  sos_type :: "string option"
  location :: "geo option"
  userInfo :: "userInfo_t option"
  timestamp :: "string option"

text \<open>A document of collection \<^verbatim>\<open>blocked_users\<close>.\<close>

record block_entry =
  blocked :: bool
  blockedAt :: "int option"
  reason :: "string option"
  blockedBy :: "string option"

text \<open>A document of collection \<^verbatim>\<open>sos_alerts\<close>. Every field may be absent; times are
  milliseconds.\<close>

record stored_userInfo =
  su_name :: string
  su_mobile_number :: string
  su_message :: string

record alert_doc =
  a_sender_id :: "string option"
  a_active :: "bool option"
  a_timestamp :: "int option"
  a_location :: "geo option"
  a_userInfo :: "stored_userInfo option"
  a_district :: "string option"
  a_state :: "string option"
  a_expiredAt :: "int option"
  a_expiredBy :: "string option"

text \<open>A document of collection \<^verbatim>\<open>admins\<close>.\<close>

record admin_doc =
  ad_role :: "string option"
  ad_assignedDistricts :: "string list option"
  ad_active :: "bool option"
  ad_createdAt :: "int option"
  ad_createdBy :: "string option"
  ad_updatedAt :: "int option"
  ad_updatedBy :: "string option"

text \<open>The message handed to \<^verbatim>\<open>admin.messaging().send\<close>. The notification title and the
  platform blocks are constants of the source and are left out; the body text is
  determined by \<open>m_userName\<close> and \<open>m_userLocation\<close>.\<close>

record fcm_message =
  m_topic :: string
  m_type :: string
  m_sender_id :: string
  m_district :: string
  m_location :: "geo option"
  m_timestamp :: string
  m_userInfo :: "userInfo_t option"
  m_userName :: string
  m_userLocation :: string

text \<open>The calls that leave the process, in the order in which the code issues them.\<close>

datatype event =
  MessagingSend fcm_message
  | AlertSet string
  | BatchCommit "string list"

text \<open>The stores. A collection is an association list from document id to document, in
  the order in which a query returns the documents.\<close>

record store =
  blocked_users :: "(string \<times> block_entry) list"
  sos_alerts :: "(string \<times> alert_doc) list"
  admins :: "(string \<times> admin_doc) list"
  auth_users :: "(string \<times> string) list"
  custom_claims :: "(string \<times> bool) list"
  calls :: "event list"

text \<open>What the token verification returns.\<close>

record decoded_token =
  tok_uid :: string
  tok_email :: string
  tok_superadmin :: bool

text \<open>The environment of one request: the clocks and the outcome of every call that can
  be rejected. An error field holds the message of the rejection, \<open>None\<close> when the call
  goes through.\<close>

record env =
  now :: int
  now_string :: string
  server_time :: int
  blocked_get_error :: "string option"
  blocked_query_error :: "string option"
  alerts_set_error :: "string option"
  alerts_query_error :: "string option"
  batch_commit_error :: "string option"
  admins_get_error :: "string option"
  admins_write_error :: "string option"
  send_result :: "string + string"
  verifyIdToken :: "string \<Rightarrow> string + decoded_token"
  setCustomUserClaims_error :: "string option"
  createUser_result :: "string + string"
  deleteUser_error :: "string option"
  localeCompare :: "string \<Rightarrow> string \<Rightarrow> int"

text \<open>An HTTP response: the status and the string fields of the JSON body (the
  \<^verbatim>\<open>success\<close> flag, the \<^verbatim>\<open>required\<close> list and the wall-clock \<^verbatim>\<open>timestamp\<close> are left
  out).\<close>

record response =
  status :: nat
  body :: "(string \<times> string) list"

section \<open>Database operations\<close>

text \<open>\<^verbatim>\<open>isSenderBlocked\<close>: the lookup of the block list, with its \<^verbatim>\<open>catch\<close> branch.\<close>

definition isSenderBlocked :: "env \<Rightarrow> store \<Rightarrow> string \<Rightarrow> bool" where
  "isSenderBlocked e st sid =
     (if \<not> BLOCKED_USERS then False
      else case blocked_get_error e of
        Some err \<Rightarrow> False
      | None \<Rightarrow>
          (case map_of (blocked_users st) sid of
             None \<Rightarrow> False
           | Some b \<Rightarrow> blocked b = True))"

definition empty_alert :: alert_doc where
  "empty_alert = \<lparr>a_sender_id = None, a_active = None, a_timestamp = None,
     a_location = None, a_userInfo = None, a_district = None, a_state = None,
     a_expiredAt = None, a_expiredBy = None\<rparr>"

definition merge_field :: "'a option \<Rightarrow> 'a option \<Rightarrow> 'a option" where
  "merge_field new old = (case new of None \<Rightarrow> old | Some v \<Rightarrow> Some v)"

text \<open>\<^verbatim>\<open>set(alertData, { merge: true })\<close>: the fields of the new data replace those of
  the stored document, the other fields stay.\<close>

definition merge_alert :: "alert_doc \<Rightarrow> alert_doc option \<Rightarrow> alert_doc" where
  "merge_alert new old =
     (let d = (case old of None \<Rightarrow> empty_alert | Some x \<Rightarrow> x) in
      \<lparr>a_sender_id = merge_field (a_sender_id new) (a_sender_id d),
       a_active = merge_field (a_active new) (a_active d),
       a_timestamp = merge_field (a_timestamp new) (a_timestamp d),
       a_location = merge_field (a_location new) (a_location d),
       a_userInfo = merge_field (a_userInfo new) (a_userInfo d),
       a_district = merge_field (a_district new) (a_district d),
       a_state = merge_field (a_state new) (a_state d),
       a_expiredAt = merge_field (a_expiredAt new) (a_expiredAt d),
       a_expiredBy = merge_field (a_expiredBy new) (a_expiredBy d)\<rparr>)"

definition store_userInfo :: "userInfo_t \<Rightarrow> stored_userInfo" where
  "store_userInfo u =
     \<lparr>su_name = str_or (ui_name u) ''Unknown'',
      su_mobile_number = str_or (ui_phone u) (str_or (ui_mobile_number u) ''N/A''),
      su_message = str_or (ui_message u) ''''\<rparr>"

definition alertData :: "env \<Rightarrow> string \<Rightarrow> bool \<Rightarrow> geo option \<Rightarrow> userInfo_t option \<Rightarrow>
    string option \<Rightarrow> string option \<Rightarrow> alert_doc" where
  "alertData e sid active loc ui district state =
     \<lparr>a_sender_id = Some sid,
      a_active = Some active,
      a_timestamp = Some (server_time e),
      a_location = (if active then loc else None),
      a_userInfo = (if active then map_option store_userInfo ui else None),
      a_district = (if active \<and> truthy district then district else None),
      a_state = (if active \<and> truthy state then state else None),
      a_expiredAt = None,
      a_expiredBy = None\<rparr>"

text \<open>\<^verbatim>\<open>storeSOSAlert\<close>: returns whether the snapshot was written. A rejected write is
  caught and reported as \<open>False\<close>.\<close>

definition storeSOSAlert :: "env \<Rightarrow> store \<Rightarrow> string \<Rightarrow> bool \<Rightarrow> geo option \<Rightarrow>
    userInfo_t option \<Rightarrow> string option \<Rightarrow> string option \<Rightarrow> bool \<times> store" where
  "storeSOSAlert e st sid active loc ui district state =
     (if \<not> ENABLE_SOS_ALERT_SNAPSHOT then (False, st)
      else
        let st1 = st\<lparr>calls := calls st @ [AlertSet sid]\<rparr> in
        case alerts_set_error e of
          Some err \<Rightarrow> (False, st1)
        | None \<Rightarrow>
            (True, st1\<lparr>sos_alerts :=
               AList.update sid
                 (merge_alert (alertData e sid active loc ui district state)
                    (map_of (sos_alerts st) sid))
                 (sos_alerts st)\<rparr>))"

text \<open>\<^verbatim>\<open>expireOldAlerts\<close>: the sweep of the scheduled job. The result is the summary,
  or the error that the function rethrows.\<close>

record expired_alert =
  ea_sender_id :: string
  ea_district :: "string option"
  ea_age_minutes :: int

record sweep_summary =
  expired :: nat
  checked :: nat
  enabled :: bool
  expiredAlerts :: "expired_alert list"

definition is_active :: "alert_doc \<Rightarrow> bool" where
  "is_active d = (a_active d = Some True)"

definition older_than :: "int \<Rightarrow> alert_doc \<Rightarrow> bool" where
  "older_than thresholdTime d =
     (case a_timestamp d of None \<Rightarrow> False | Some t \<Rightarrow> t < thresholdTime)"

definition expire_doc :: "env \<Rightarrow> alert_doc \<Rightarrow> alert_doc" where
  "expire_doc e d =
     d\<lparr>a_active := Some False,
       a_expiredAt := Some (server_time e),
       a_expiredBy := Some ''scheduled_job''\<rparr>"

definition expired_entry :: "env \<Rightarrow> string \<times> alert_doc \<Rightarrow> expired_alert" where
  "expired_entry e kd =
     \<lparr>ea_sender_id = fst kd,
      ea_district = a_district (snd kd),
      ea_age_minutes =
        (case a_timestamp (snd kd) of None \<Rightarrow> 0 | Some t \<Rightarrow> (now e - t) div 60000)\<rparr>"

definition expireOldAlerts :: "env \<Rightarrow> store \<Rightarrow> (string + sweep_summary) \<times> store" where
  "expireOldAlerts e st =
     (if \<not> ENABLE_SOS_ALERT_SNAPSHOT
      then (Inr \<lparr>expired = 0, checked = 0, enabled = False, expiredAlerts = []\<rparr>, st)
      else
        let thresholdTime = now e - ALERT_EXPIRATION_THRESHOLD_MS in
        case alerts_query_error e of
          Some err \<Rightarrow> (Inl err, st)
        | None \<Rightarrow>
            let snapshot = filter (\<lambda>kd. is_active (snd kd)) (sos_alerts st);
                old = filter (\<lambda>kd. older_than thresholdTime (snd kd)) snapshot;
                summary = \<lparr>expired = length old, checked = length snapshot, enabled = True,
                  expiredAlerts = map (expired_entry e) old\<rparr>
            in
              if length old > 0 then
                let st1 = st\<lparr>calls := calls st @ [BatchCommit (map fst old)]\<rparr> in
                case batch_commit_error e of
                  Some err \<Rightarrow> (Inl err, st1)
                | None \<Rightarrow>
                    (Inr summary,
                     st1\<lparr>sos_alerts :=
                       fold (\<lambda>k. AList.map_entry k (expire_doc e)) (map fst old)
                         (sos_alerts st)\<rparr>)
              else (Inr summary, st))"

section \<open>The route \<^verbatim>\<open>POST /sos\<close>\<close>

definition opt_district :: "sos_request \<Rightarrow> string option" where
  "opt_district req = (case userInfo req of None \<Rightarrow> None | Some u \<Rightarrow> ui_district u)"

definition opt_name :: "sos_request \<Rightarrow> string option" where
  "opt_name req = (case userInfo req of None \<Rightarrow> None | Some u \<Rightarrow> ui_name u)"

definition opt_location :: "sos_request \<Rightarrow> string option" where
  "opt_location req = (case userInfo req of None \<Rightarrow> None | Some u \<Rightarrow> ui_location u)"

definition missing_fields :: response where
  "missing_fields = \<lparr>status = 400, body = [(''error'', ''Missing required fields'')]\<rparr>"

definition access_denied :: response where
  "access_denied = \<lparr>status = 403, body = [(''error'', ''Access denied''),
     (''message'', ''Your account has been restricted from using this service'')]\<rparr>"

definition invalid_sos_type :: response where
  "invalid_sos_type = \<lparr>status = 400, body = [(''error'', ''Invalid sos_type''),
     (''message'', ''sos_type must be either \"sos_alert\" or \"stop\"'')]\<rparr>"

definition missing_district :: "string \<Rightarrow> response" where
  "missing_district what = \<lparr>status = 400, body = [(''error'', ''Missing district in userInfo''),
     (''message'', ''district is required for '' @ what)]\<rparr>"

definition send_failed :: "string \<Rightarrow> response" where
  "send_failed msg = \<lparr>status = 500, body = [(''error'', ''Failed to send SOS alert''),
     (''message'', msg)]\<rparr>"

definition stopMessage :: "env \<Rightarrow> string \<Rightarrow> string \<Rightarrow> sos_request \<Rightarrow> fcm_message" where
  "stopMessage e sid district req =
     \<lparr>m_topic = ''district-'' @ district,
      m_type = ''sos_resolved'',
      m_sender_id = sid,
      m_district = district,
      m_location = None,
      m_timestamp = str_or (timestamp req) (now_string e),
      m_userInfo = None,
      m_userName = str_or (opt_name req) ''Someone'',
      m_userLocation = str_or (opt_location req) (district_title district)\<rparr>"

definition alertMessage :: "env \<Rightarrow> string \<Rightarrow> string \<Rightarrow> geo \<Rightarrow> sos_request \<Rightarrow> fcm_message" where
  "alertMessage e sid district loc req =
     \<lparr>m_topic = ''district-'' @ district,
      m_type = ''sos_alert'',
      m_sender_id = sid,
      m_district = district,
      m_location = Some loc,
      m_timestamp = str_or (timestamp req) (now_string e),
      m_userInfo = userInfo req,
      m_userName = str_or (opt_name req) ''Someone'',
      m_userLocation = str_or (opt_location req) (district_title district)\<rparr>"

text \<open>The branch \<^verbatim>\<open>sos_type === 'stop'\<close>.\<close>

definition sos_stop :: "env \<Rightarrow> store \<Rightarrow> string \<Rightarrow> sos_request \<Rightarrow> response \<times> store" where
  "sos_stop e st sid req =
     (if \<not> truthy (opt_district req) then (missing_district ''stop notification'', st)
      else
        let district = the (opt_district req);
            st1 = st\<lparr>calls := calls st @ [MessagingSend (stopMessage e sid district req)]\<rparr>
        in case send_result e of
             Inl err \<Rightarrow> (send_failed err, st1)
           | Inr stopResponse \<Rightarrow>
               let st2 = snd (storeSOSAlert e st1 sid False None None None None) in
               (\<lparr>status = 200, body = [(''message'', ''SOS alert stopped successfully''),
                   (''messageId'', stopResponse), (''senderId'', sid),
                   (''district'', district)]\<rparr>, st2))"

text \<open>The branch \<^verbatim>\<open>sos_type === 'sos_alert'\<close>.\<close>

definition sos_alert :: "env \<Rightarrow> store \<Rightarrow> string \<Rightarrow> geo \<Rightarrow> sos_request \<Rightarrow> response \<times> store" where
  "sos_alert e st sid loc req =
     (if \<not> truthy (opt_district req) then (missing_district ''SOS alert'', st)
      else
        let district = the (opt_district req);
            userLocation = str_or (opt_location req) (district_title district);
            state = derive_state userLocation;
            st1 = st\<lparr>calls := calls st @ [MessagingSend (alertMessage e sid district loc req)]\<rparr>
        in case send_result e of
             Inl err \<Rightarrow> (send_failed err, st1)
           | Inr response \<Rightarrow>
               let st2 = snd (storeSOSAlert e st1 sid True (Some loc) (userInfo req)
                               (Some district) (Some state)) in
               (\<lparr>status = 200, body = [(''message'', ''SOS alert sent successfully''),
                   (''messageId'', response), (''topic'', ''district-'' @ district),
                   (''senderId'', sid), (''district'', district)]\<rparr>, st2))"

definition post_sos :: "env \<Rightarrow> store \<Rightarrow> sos_request \<Rightarrow> response \<times> store" where
  "post_sos e st req =
     (if \<not> truthy (sender_id req) \<or> \<not> truthy (sos_type req) \<or> location req = None
      then (missing_fields, st)
      else
        let sid = the (sender_id req); ty = the (sos_type req); loc = the (location req) in
        if isSenderBlocked e st sid then (access_denied, st)
        else if ty \<notin> set [''sos_alert'', ''stop''] then (invalid_sos_type, st)
        else if ty = ''stop'' then sos_stop e st sid req
        else if ty = ''sos_alert'' then sos_alert e st sid loc req
        else (invalid_sos_type, st))"

section \<open>Authentication middleware\<close>

record principal =
  p_uid :: string
  p_email :: string

definition isSuperAdmin :: "string \<Rightarrow> bool" where
  "isSuperAdmin email = (email \<in> set SUPER_ADMINS)"

definition starts_with :: "string \<Rightarrow> string \<Rightarrow> bool" where
  "starts_with p s = (take (length p) s = p)"

text \<open>The text before the first occurrence of a separator.\<close>

fun before_sep :: "string \<Rightarrow> string \<Rightarrow> string" where
  "before_sep sep [] = []"
| "before_sep sep (c # cs) =
     (if starts_with sep (c # cs) then [] else c # before_sep sep cs)"

text \<open>\<^verbatim>\<open>authHeader.split('Bearer ')[1]\<close> for a header that starts with the separator.\<close>

definition bearer_token :: "string \<Rightarrow> string" where
  "bearer_token h = before_sep ''Bearer '' (drop (length ''Bearer '') h)"

definition unauthorized :: "string \<Rightarrow> response" where
  "unauthorized msg = \<lparr>status = 401, body = [(''error'', ''Unauthorized''), (''message'', msg)]\<rparr>"

definition authenticateUser :: "env \<Rightarrow> store \<Rightarrow> string option \<Rightarrow>
    (response + principal) \<times> store" where
  "authenticateUser e st authHeader =
     (if \<not> truthy authHeader \<or> \<not> starts_with ''Bearer '' (the authHeader)
      then (Inl (unauthorized ''Missing or invalid authorization header''), st)
      else
        case verifyIdToken e (bearer_token (the authHeader)) of
          Inl err \<Rightarrow> (Inl (unauthorized ''Invalid or expired token''), st)
        | Inr decodedToken \<Rightarrow>
            let user = \<lparr>p_uid = tok_uid decodedToken, p_email = tok_email decodedToken\<rparr> in
            if isSuperAdmin (tok_email decodedToken) \<and> \<not> tok_superadmin decodedToken then
              (case setCustomUserClaims_error e of
                 Some err \<Rightarrow> (Inl (unauthorized ''Invalid or expired token''), st)
               | None \<Rightarrow>
                   (Inr user,
                    st\<lparr>custom_claims :=
                      AList.update (tok_uid decodedToken) True (custom_claims st)\<rparr>))
            else (Inr user, st))"

definition requireSuperAdmin :: "principal option \<Rightarrow> response option" where
  "requireSuperAdmin user =
     (case user of
        None \<Rightarrow> Some (unauthorized ''Authentication required'')
      | Some u \<Rightarrow>
          if p_email u \<notin> set SUPER_ADMINS
          then Some \<lparr>status = 403, body = [(''error'', ''Forbidden''),
                 (''message'', ''Super admin access required'')]\<rparr>
          else None)"

text \<open>\<^verbatim>\<open>getAdmin\<close>: the document of an administrator, or the error of the read.\<close>

definition getAdmin :: "env \<Rightarrow> store \<Rightarrow> string \<Rightarrow> string + admin_doc option" where
  "getAdmin e st email =
     (case admins_get_error e of
        Some err \<Rightarrow> Inl err
      | None \<Rightarrow> Inr (map_of (admins st) email))"

section \<open>Admin management routes\<close>

record create_body =
  cb_email :: "string option"
  cb_password :: "string option"
  cb_assignedDistricts :: "string list option"

record update_body =
  ub_assignedDistricts :: "string list option"
  ub_active :: "bool option"

text \<open>The test of \<^verbatim>\<open>/^[^\s@]+@[^\s@]+\.[^\s@]+$/\<close>: one \<^verbatim>\<open>@\<close>, no white space, a
  non-empty local part, and a dot inside the rest with a character on each side.\<close>

definition emailRegex_test :: "string \<Rightarrow> bool" where
  "emailRegex_test s =
     (let local_part = takeWhile (\<lambda>c. c \<noteq> CHR ''@'') s;
          rest = drop (length local_part) s
      in local_part \<noteq> [] \<and> rest \<noteq> [] \<and>
         \<not> list_ex is_space s \<and>
         CHR ''@'' \<notin> set (tl rest) \<and>
         CHR ''.'' \<in> set (butlast (tl (tl rest))))"

definition failed :: "string \<Rightarrow> string \<Rightarrow> response" where
  "failed what msg = \<lparr>status = 500, body = [(''error'', what), (''message'', msg)]\<rparr>"

text \<open>The handler of \<^verbatim>\<open>POST /admin/admins\<close>, after the two middlewares.\<close>

definition create_admin :: "env \<Rightarrow> store \<Rightarrow> principal \<Rightarrow> create_body \<Rightarrow> response \<times> store" where
  "create_admin e st user b =
     (if \<not> truthy (cb_email b) \<or> \<not> truthy (cb_password b)
      then (\<lparr>status = 400, body = [(''error'', ''Missing required fields'')]\<rparr>, st)
      else
        let email = the (cb_email b) in
        if \<not> emailRegex_test email
        then (\<lparr>status = 400, body = [(''error'', ''Invalid email format'')]\<rparr>, st)
        else if isSuperAdmin email
        then (\<lparr>status = 400, body = [(''error'', ''Cannot create admin account''),
                (''message'', ''This email is reserved for super admin'')]\<rparr>, st)
        else
          case getAdmin e st email of
            Inl err \<Rightarrow> (failed ''Failed to create admin'' err, st)
          | Inr (Some existingAdmin) \<Rightarrow>
              (\<lparr>status = 409, body = [(''error'', ''Admin already exists''),
                 (''message'', ''Admin with email '' @ email @ '' already exists'')]\<rparr>, st)
          | Inr None \<Rightarrow>
              (case createUser_result e of
                 Inl authError \<Rightarrow>
                   (\<lparr>status = 400, body = [(''error'', ''Failed to create user account''),
                      (''message'', authError)]\<rparr>, st)
               | Inr uid \<Rightarrow>
                   let st1 = st\<lparr>auth_users := AList.update email uid (auth_users st)\<rparr>;
                       adminData = \<lparr>ad_role = Some ''admin'',
                         ad_assignedDistricts =
                           Some (case cb_assignedDistricts b of None \<Rightarrow> [] | Some ds \<Rightarrow> ds),
                         ad_active = Some True,
                         ad_createdAt = Some (server_time e),
                         ad_createdBy = Some (p_email user),
                         ad_updatedAt = None,
                         ad_updatedBy = None\<rparr>
                   in (case admins_write_error e of
                        Some err \<Rightarrow> (failed ''Failed to create admin'' err, st1)
                      | None \<Rightarrow>
                          (\<lparr>status = 200, body = [(''message'', ''Admin created successfully''),
                             (''email'', email), (''uid'', uid)]\<rparr>,
                           st1\<lparr>admins := AList.update email adminData (admins st1)\<rparr>))))"

text \<open>The handler of \<^verbatim>\<open>PUT /admin/admins/:email\<close>.\<close>

definition update_admin :: "env \<Rightarrow> store \<Rightarrow> principal \<Rightarrow> string \<Rightarrow> update_body \<Rightarrow>
    response \<times> store" where
  "update_admin e st user email b =
     (if isSuperAdmin email
      then (\<lparr>status = 400, body = [(''error'', ''Cannot update super admin''),
              (''message'', ''Super admin accounts cannot be modified'')]\<rparr>, st)
      else
        case getAdmin e st email of
          Inl err \<Rightarrow> (failed ''Failed to update admin'' err, st)
        | Inr None \<Rightarrow>
            (\<lparr>status = 404, body = [(''error'', ''Admin not found''),
               (''message'', ''Admin with email '' @ email @ '' does not exist'')]\<rparr>, st)
        | Inr (Some existingAdmin) \<Rightarrow>
            (case admins_write_error e of
               Some err \<Rightarrow> (failed ''Failed to update admin'' err, st)
             | None \<Rightarrow>
                 (\<lparr>status = 200, body = [(''message'', ''Admin updated successfully''),
                    (''email'', email)]\<rparr>,
                  st\<lparr>admins := AList.map_entry email
                    (\<lambda>d. d\<lparr>ad_updatedAt := Some (server_time e),
                            ad_updatedBy := Some (p_email user),
                            ad_assignedDistricts :=
                              merge_field (ub_assignedDistricts b) (ad_assignedDistricts d),
                            ad_active := merge_field (ub_active b) (ad_active d)\<rparr>)
                    (admins st)\<rparr>)))"

text \<open>The handler of \<^verbatim>\<open>DELETE /admin/admins/:email\<close>. A failure to delete the credential
  is caught and the document is deleted all the same.\<close>

definition delete_admin :: "env \<Rightarrow> store \<Rightarrow> principal \<Rightarrow> string \<Rightarrow> response \<times> store" where
  "delete_admin e st user email =
     (if isSuperAdmin email
      then (\<lparr>status = 400, body = [(''error'', ''Cannot delete super admin''),
              (''message'', ''Super admin accounts cannot be deleted'')]\<rparr>, st)
      else
        case getAdmin e st email of
          Inl err \<Rightarrow> (failed ''Failed to delete admin'' err, st)
        | Inr None \<Rightarrow>
            (\<lparr>status = 404, body = [(''error'', ''Admin not found''),
               (''message'', ''Admin with email '' @ email @ '' does not exist'')]\<rparr>, st)
        | Inr (Some existingAdmin) \<Rightarrow>
            let st1 =
              (if map_of (auth_users st) email \<noteq> None \<and> deleteUser_error e = None
               then st\<lparr>auth_users := AList.delete email (auth_users st)\<rparr>
               else st)
            in (case admins_write_error e of
                 Some err \<Rightarrow> (failed ''Failed to delete admin'' err, st1)
               | None \<Rightarrow>
                   (\<lparr>status = 200, body = [(''message'', ''Admin deleted successfully''),
                      (''email'', email)]\<rparr>,
                    st1\<lparr>admins := AList.delete email (admins st1)\<rparr>)))"

text \<open>A route behind \<^verbatim>\<open>authenticateUser, requireSuperAdmin\<close>: the handler runs when both
  middlewares call \<^verbatim>\<open>next()\<close>.\<close>

definition super_admin_route :: "env \<Rightarrow> store \<Rightarrow> string option \<Rightarrow>
    (env \<Rightarrow> store \<Rightarrow> principal \<Rightarrow> response \<times> store) \<Rightarrow> response \<times> store" where
  "super_admin_route e st authHeader handler =
     (case authenticateUser e st authHeader of
        (Inl r, st1) \<Rightarrow> (r, st1)
      | (Inr user, st1) \<Rightarrow>
          (case requireSuperAdmin (Some user) of
             Some r \<Rightarrow> (r, st1)
           | None \<Rightarrow> handler e st1 user))"

definition post_admin_admins :: "env \<Rightarrow> store \<Rightarrow> string option \<Rightarrow> create_body \<Rightarrow>
    response \<times> store" where
  "post_admin_admins e st authHeader b =
     super_admin_route e st authHeader (\<lambda>e' st' user. create_admin e' st' user b)"

definition put_admin_admins :: "env \<Rightarrow> store \<Rightarrow> string option \<Rightarrow> string \<Rightarrow> update_body \<Rightarrow>
    response \<times> store" where
  "put_admin_admins e st authHeader email b =
     super_admin_route e st authHeader (\<lambda>e' st' user. update_admin e' st' user email b)"

definition delete_admin_admins :: "env \<Rightarrow> store \<Rightarrow> string option \<Rightarrow> string \<Rightarrow>
    response \<times> store" where
  "delete_admin_admins e st authHeader email =
     super_admin_route e st authHeader (\<lambda>e' st' user. delete_admin e' st' user email)"

section \<open>The route \<^verbatim>\<open>GET /admin/users\<close>\<close>

text \<open>The query string after \<^verbatim>\<open>parseInt\<close>: \<open>None\<close> is \<^verbatim>\<open>NaN\<close>.\<close>

record users_query =
  q_page :: "int option"
  q_pageSize :: "int option"
  q_search :: "string option"

record user_row =
  u_sender_id :: string
  u_name :: string
  u_mobile_number :: string
  u_state :: string
  u_district :: string
  u_blocked :: bool
  u_blockedAt :: "int option"
  u_blockedBy :: "string option"
  u_reason :: "string option"

datatype users_response =
  UsersPage "user_row list" nat int int int
  | UsersError nat string string

text \<open>\<^verbatim>\<open>parseInt(x) || d\<close>: \<^verbatim>\<open>NaN\<close> and 0 are falsy.\<close>

definition int_or :: "int option \<Rightarrow> int \<Rightarrow> int" where
  "int_or a d = (case a of None \<Rightarrow> d | Some n \<Rightarrow> if n = 0 then d else n)"

text \<open>\<^verbatim>\<open>a.includes(b)\<close> on strings.\<close>

fun str_includes :: "string \<Rightarrow> string \<Rightarrow> bool" where
  "str_includes [] b = (b = [])"
| "str_includes (c # cs) b = (starts_with b (c # cs) \<or> str_includes cs b)"

text \<open>\<^verbatim>\<open>Array.prototype.slice(start, end)\<close>: a negative index counts from the end.\<close>

definition slice_index :: "nat \<Rightarrow> int \<Rightarrow> nat" where
  "slice_index n i = (if i < 0 then nat (max (int n + i) 0) else min (nat i) n)"

definition slice :: "'a list \<Rightarrow> int \<Rightarrow> int \<Rightarrow> 'a list" where
  "slice xs start fin =
     (let k = slice_index (length xs) start; f = slice_index (length xs) fin
      in take (f - k) (drop k xs))"

text \<open>\<^verbatim>\<open>users.sort((a, b) => a.name.localeCompare(b.name))\<close>: a stable sort (rows of
  equal name keep their order); the comparison of the locale is a parameter of the
  environment.\<close>

fun insert_by :: "(string \<Rightarrow> string \<Rightarrow> int) \<Rightarrow> user_row \<Rightarrow> user_row list \<Rightarrow> user_row list" where
  "insert_by cmp x [] = [x]"
| "insert_by cmp x (y # ys) =
     (if cmp (u_name x) (u_name y) \<le> 0 then x # y # ys else y # insert_by cmp x ys)"

definition sort_by_name :: "(string \<Rightarrow> string \<Rightarrow> int) \<Rightarrow> user_row list \<Rightarrow> user_row list" where
  "sort_by_name cmp users = foldr (insert_by cmp) users []"

text \<open>The loop that builds \<^verbatim>\<open>userMap\<close> from the documents of the query.\<close>

definition user_of_doc :: "string \<Rightarrow> alert_doc \<Rightarrow> user_row option" where
  "user_of_doc senderId d =
     (let nm = (case a_userInfo d of None \<Rightarrow> None | Some u \<Rightarrow> Some (su_name u));
          mob = (case a_userInfo d of None \<Rightarrow> None | Some u \<Rightarrow> Some (su_mobile_number u))
      in if truthy nm \<or> truthy mob
         then Some \<lparr>u_sender_id = senderId,
                u_name = str_or nm ''Unknown'',
                u_mobile_number = str_or mob ''N/A'',
                u_state = str_or (a_state d) ''Unknown'',
                u_district = str_or (a_district d) ''Unknown'',
                u_blocked = False,
                u_blockedAt = None, u_blockedBy = None, u_reason = None\<rparr>
         else None)"

fun build_userMap :: "(string \<times> alert_doc) list \<Rightarrow> (string \<times> user_row) list \<Rightarrow>
    (string \<times> user_row) list" where
  "build_userMap [] userMap = userMap"
| "build_userMap ((senderId, d) # docs) userMap =
     build_userMap docs
       (case user_of_doc senderId d of
          None \<Rightarrow> userMap
        | Some u \<Rightarrow> AList.update senderId u userMap)"

text \<open>The merge of the block information into a row of \<^verbatim>\<open>userMap\<close>.\<close>

definition merge_blocked :: "(string \<times> block_entry) list \<Rightarrow> string \<times> user_row \<Rightarrow>
    string \<times> user_row" where
  "merge_blocked blockedDocs su =
     (case map_of blockedDocs (fst su) of
        None \<Rightarrow> su
      | Some b \<Rightarrow>
          (fst su, (snd su)\<lparr>u_blocked := True, u_blockedAt := blockedAt b,
             u_blockedBy := blockedBy b, u_reason := reason b\<rparr>))"

definition matches_search :: "string \<Rightarrow> user_row \<Rightarrow> bool" where
  "matches_search searchLower u =
     (str_includes (toLowerCase (u_name u)) searchLower \<or>
      str_includes (toLowerCase (u_mobile_number u)) searchLower \<or>
      str_includes (toLowerCase (u_state u)) searchLower \<or>
      str_includes (toLowerCase (u_district u)) searchLower)"

text \<open>The query on \<^verbatim>\<open>sos_alerts\<close>: filtered with \<^verbatim>\<open>where('district', 'in', ...)\<close> when
  the caller is not a super admin and has a non-empty list of districts. The bound of
  Firestore on the length of that list is not modelled.\<close>

definition users_query_docs :: "store \<Rightarrow> bool \<Rightarrow> string list \<Rightarrow> (string \<times> alert_doc) list" where
  "users_query_docs st isSuperAdminUser allowedDistricts =
     (if \<not> isSuperAdminUser \<and> length allowedDistricts > 0
      then filter (\<lambda>kd. case a_district (snd kd) of None \<Rightarrow> False
                          | Some d \<Rightarrow> d \<in> set allowedDistricts) (sos_alerts st)
      else sos_alerts st)"

text \<open>The part of the handler after the permission check.\<close>

definition list_users :: "env \<Rightarrow> store \<Rightarrow> bool \<Rightarrow> string list \<Rightarrow> users_query \<Rightarrow> users_response" where
  "list_users e st isSuperAdminUser allowedDistricts q =
     (let page = int_or (q_page q) 1;
          pageSize = int_or (q_pageSize q) 50;
          search = str_or (q_search q) []
      in case alerts_query_error e of
           Some err \<Rightarrow> UsersError 500 ''Failed to retrieve users'' err
         | None \<Rightarrow>
             (case blocked_query_error e of
                Some err \<Rightarrow> UsersError 500 ''Failed to retrieve users'' err
              | None \<Rightarrow>
                  (let userMap = build_userMap (users_query_docs st isSuperAdminUser allowedDistricts) [];
                      blockedDocs = filter (\<lambda>kb. blocked (snd kb) = True) (blocked_users st);
                      users0 = map snd (map (merge_blocked blockedDocs) userMap);
                      users1 = (if search \<noteq> [] then filter (matches_search (toLowerCase search)) users0
                                else users0);
                      users = sort_by_name (localeCompare e) users1;
                      total = length users;
                      totalPages = - ((- int total) div pageSize);
                      startIndex = (page - 1) * pageSize;
                      endIndex = startIndex + pageSize
                  in UsersPage (slice users startIndex endIndex) total page pageSize totalPages)))"

text \<open>The handler of \<^verbatim>\<open>GET /admin/users\<close>, after \<^verbatim>\<open>authenticateUser\<close>.\<close>

definition get_admin_users :: "env \<Rightarrow> store \<Rightarrow> principal \<Rightarrow> users_query \<Rightarrow> users_response" where
  "get_admin_users e st user q =
     (let isSuperAdminUser = isSuperAdmin (p_email user) in
      if \<not> isSuperAdminUser then
        (case getAdmin e st (p_email user) of
           Inl err \<Rightarrow> UsersError 500 ''Failed to retrieve users'' err
         | Inr adminDoc \<Rightarrow>
             if adminDoc = None \<or> ad_active (the adminDoc) \<noteq> Some True
             then UsersError 403 ''Forbidden'' ''Admin account is inactive or not found''
             else
               list_users e st isSuperAdminUser
                 (case ad_assignedDistricts (the adminDoc) of None \<Rightarrow> [] | Some ds \<Rightarrow> ds) q)
      else list_users e st isSuperAdminUser [] q)"

section \<open>Example requests, stores and environments\<close>

text \<open>The requests of the end-to-end scenario: sender \<^verbatim>\<open>A\<close> raises an alert in district
  \<^verbatim>\<open>udupi\<close> from \<^verbatim>\<open>Manipal, Karnataka\<close>, then stops it.\<close>

definition loc0 :: geo where
  "loc0 = \<lparr>latitude = 1334 / 100, longitude = 7474 / 100, accuracy = 10\<rparr>"

definition info0 :: userInfo_t where
  "info0 = \<lparr>ui_district = Some ''udupi'', ui_name = Some ''Jane'',
     ui_location = Some ''Manipal, Karnataka'', ui_phone = Some ''+91-98'',
     ui_mobile_number = None, ui_message = None\<rparr>"

definition info_district :: userInfo_t where
  "info_district = \<lparr>ui_district = Some ''udupi'', ui_name = None, ui_location = None,
     ui_phone = None, ui_mobile_number = None, ui_message = None\<rparr>"

definition raise_req :: sos_request where
  "raise_req = \<lparr>sender_id = Some ''A'', sos_type = Some ''sos_alert'', location = Some loc0,
     userInfo = Some info0, timestamp = Some ''1700000000000''\<rparr>"

definition stop_req :: sos_request where
  "stop_req = \<lparr>sender_id = Some ''A'', sos_type = Some ''stop'', location = Some loc0,
     userInfo = Some info_district, timestamp = None\<rparr>"

definition stop_req_no_location :: sos_request where
  "stop_req_no_location = \<lparr>sender_id = Some ''A'', sos_type = Some ''stop'', location = None,
     userInfo = Some info_district, timestamp = None\<rparr>"

text \<open>A raise whose location text ends with a comma.\<close>

definition raise_req_blank :: sos_request where
  "raise_req_blank = raise_req\<lparr>userInfo := Some (info0\<lparr>ui_location := Some ''Manipal,''\<rparr>)\<rparr>"

text \<open>A comparison of strings by character code, for the examples.\<close>

fun code_compare :: "string \<Rightarrow> string \<Rightarrow> int" where
  "code_compare [] [] = 0"
| "code_compare [] (y # ys) = - 1"
| "code_compare (x # xs) [] = 1"
| "code_compare (x # xs) (y # ys) =
     (if (of_char x :: nat) < of_char y then - 1
      else if (of_char y :: nat) < of_char x then 1
      else code_compare xs ys)"

definition example_verify :: "string \<Rightarrow> string + decoded_token" where
  "example_verify t =
     (if t = ''super-token''
      then Inr \<lparr>tok_uid = ''uid-super'', tok_email = ''shamanthknr@gmail.com'',
             tok_superadmin = False\<rparr>
      else if t = ''admin-token''
      then Inr \<lparr>tok_uid = ''uid-ops'', tok_email = ''ops@example.org'', tok_superadmin = False\<rparr>
      else Inl ''auth/argument-error'')"

text \<open>An environment in which every call goes through.\<close>

definition env_ok :: env where
  "env_ok = \<lparr>now = 1700003700000, now_string = ''1700003700000'',
     server_time = 1700003700001,
     blocked_get_error = None, blocked_query_error = None, alerts_set_error = None,
     alerts_query_error = None, batch_commit_error = None, admins_get_error = None,
     admins_write_error = None, send_result = Inr ''projects/rrt/messages/1'',
     verifyIdToken = example_verify, setCustomUserClaims_error = None,
     createUser_result = Inr ''uid-new'', deleteUser_error = None,
     localeCompare = code_compare\<rparr>"

definition env_send_fails :: env where
  "env_send_fails = env_ok\<lparr>send_result := Inl ''messaging/internal-error''\<rparr>"

definition env_store_fails :: env where
  "env_store_fails = env_ok\<lparr>alerts_set_error := Some ''deadline exceeded''\<rparr>"

definition env_lookup_fails :: env where
  "env_lookup_fails = env_ok\<lparr>blocked_get_error := Some ''unavailable''\<rparr>"

definition empty_store :: store where
  "empty_store = \<lparr>blocked_users = [], sos_alerts = [], admins = [], auth_users = [],
     custom_claims = [], calls = []\<rparr>"

definition block_A :: block_entry where
  "block_A = \<lparr>blocked = True, blockedAt = Some 1700000000000, reason = Some ''spam'',
     blockedBy = Some ''ops@example.org''\<rparr>"

definition store_blocked :: store where
  "store_blocked = empty_store\<lparr>blocked_users := [(''A'', block_A)]\<rparr>"

definition user_Jane :: stored_userInfo where
  "user_Jane = \<lparr>su_name = ''Jane'', su_mobile_number = ''+91-98'', su_message = []\<rparr>"

text \<open>The row of sender \<^verbatim>\<open>A\<close> after the raise of the scenario, written at the given time.\<close>

definition row_A :: "int \<Rightarrow> alert_doc" where
  "row_A t = \<lparr>a_sender_id = Some ''A'', a_active = Some True, a_timestamp = Some t,
     a_location = Some loc0, a_userInfo = Some user_Jane, a_district = Some ''udupi'',
     a_state = Some ''KARNATAKA'', a_expiredAt = None, a_expiredBy = None\<rparr>"

definition store_active :: store where
  "store_active = empty_store\<lparr>sos_alerts := [(''A'', row_A 1700000000000)]\<rparr>"

text \<open>Sender \<^verbatim>\<open>A\<close> has an earlier, resolved alert raised from Kerala.\<close>

definition store_kerala :: store where
  "store_kerala = empty_store\<lparr>sos_alerts :=
     [(''A'', (row_A 1690000000000)\<lparr>a_active := Some False, a_state := Some ''KERALA''\<rparr>)]\<rparr>"

text \<open>Three rows for the sweep at \<open>now env_ok\<close>: \<^verbatim>\<open>A\<close> is active and older than an hour,
  \<^verbatim>\<open>B\<close> is active and ten minutes old, \<^verbatim>\<open>C\<close> is inactive and old.\<close>

definition store_sweep :: store where
  "store_sweep = empty_store\<lparr>sos_alerts :=
     [(''A'', row_A 1700000000000),
      (''B'', (row_A 1700003100000)\<lparr>a_sender_id := Some ''B'', a_district := Some ''mangalore''\<rparr>),
      (''C'', (row_A 1690000000000)\<lparr>a_sender_id := Some ''C'', a_active := Some False\<rparr>)]\<rparr>"

text \<open>An active administrator without assigned districts, and the rows of two districts.\<close>

definition admin_ops :: admin_doc where
  "admin_ops = \<lparr>ad_role = Some ''admin'', ad_assignedDistricts = Some [], ad_active = Some True,
     ad_createdAt = Some 1690000000000, ad_createdBy = Some ''shamanthknr@gmail.com'',
     ad_updatedAt = None, ad_updatedBy = None\<rparr>"

definition store_admins :: store where
  "store_admins = store_sweep\<lparr>admins := [(''ops@example.org'', admin_ops)],
     auth_users := [(''ops@example.org'', ''uid-ops''), (''shamanthknr@gmail.com'', ''uid-super'')]\<rparr>"

definition user_ops :: principal where
  "user_ops = \<lparr>p_uid = ''uid-ops'', p_email = ''ops@example.org''\<rparr>"

text \<open>An active administrator of district \<^verbatim>\<open>udupi\<close>, beside the one without
  districts.\<close>

definition admin_udupi :: admin_doc where
  "admin_udupi = admin_ops\<lparr>ad_assignedDistricts := Some [''udupi'']\<rparr>"

definition store_scoped :: store where
  "store_scoped = store_admins\<lparr>admins :=
     [(''ops@example.org'', admin_ops), (''udupi@example.org'', admin_udupi)]\<rparr>"

definition user_udupi :: principal where
  "user_udupi = \<lparr>p_uid = ''uid-udupi'', p_email = ''udupi@example.org''\<rparr>"

definition user_super :: principal where
  "user_super = \<lparr>p_uid = ''uid-super'', p_email = ''shamanthknr@gmail.com''\<rparr>"

definition first_page :: users_query where
  "first_page = \<lparr>q_page = None, q_pageSize = None, q_search = None\<rparr>"

text \<open>Requests to the admin management routes that name a super admin.\<close>

definition create_super :: create_body where
  "create_super = \<lparr>cb_email = Some ''shamanthknr@gmail.com'', cb_password = Some ''secret-1'',
     cb_assignedDistricts = Some [''udupi'']\<rparr>"

definition update_off :: update_body where
  "update_off = \<lparr>ub_assignedDistricts = None, ub_active = Some False\<rparr>"

section \<open>Shared lemmas\<close>

lemma post_sos_stop:
  "truthy (sender_id req) \<Longrightarrow> sos_type req = Some ''stop'' \<Longrightarrow> location req \<noteq> None \<Longrightarrow>
   post_sos e st req =
     (if isSenderBlocked e st (the (sender_id req)) then (access_denied, st)
      else sos_stop e st (the (sender_id req)) req)"
  by (auto simp add: post_sos_def truthy_def)

lemma post_sos_alert:
  "truthy (sender_id req) \<Longrightarrow> sos_type req = Some ''sos_alert'' \<Longrightarrow> location req \<noteq> None \<Longrightarrow>
   post_sos e st req =
     (if isSenderBlocked e st (the (sender_id req)) then (access_denied, st)
      else sos_alert e st (the (sender_id req)) (the (location req)) req)"
  by (auto simp add: post_sos_def truthy_def)

lemma sos_stop_status: "status (fst (sos_stop e st sid req)) \<in> {200, 400, 500}"
  by (simp add: sos_stop_def missing_district_def send_failed_def Let_def split: sum.split)

lemma sos_alert_status: "status (fst (sos_alert e st sid loc req)) \<in> {200, 400, 500}"
  by (simp add: sos_alert_def missing_district_def send_failed_def Let_def split: sum.split)

lemma post_sos_403:
  "status (fst (post_sos e st req)) = 403 \<longleftrightarrow>
     truthy (sender_id req) \<and> truthy (sos_type req) \<and> location req \<noteq> None \<and>
     isSenderBlocked e st (the (sender_id req))"
  using sos_stop_status [of e st "the (sender_id req)" req]
    sos_alert_status [of e st "the (sender_id req)" "the (location req)" req]
  by (auto simp add: post_sos_def missing_fields_def access_denied_def invalid_sos_type_def Let_def)

lemma isSenderBlocked_iff:
  "isSenderBlocked e st sid \<longleftrightarrow>
     blocked_get_error e = None \<and> (\<exists>b. map_of (blocked_users st) sid = Some b \<and> blocked b)"
  by (simp add: isSenderBlocked_def BLOCKED_USERS_def split: option.split)

lemma storeSOSAlert_calls:
  "calls (snd (storeSOSAlert e st sid active loc ui district state)) = calls st @ [AlertSet sid]"
  by (simp add: storeSOSAlert_def ENABLE_SOS_ALERT_SNAPSHOT_def Let_def split: option.split)

lemma storeSOSAlert_failed:
  "alerts_set_error e = Some err \<Longrightarrow>
   storeSOSAlert e st sid active loc ui district state =
     (False, st\<lparr>calls := calls st @ [AlertSet sid]\<rparr>)"
  by (simp add: storeSOSAlert_def ENABLE_SOS_ALERT_SNAPSHOT_def Let_def)

lemma storeSOSAlert_written:
  "alerts_set_error e = None \<Longrightarrow>
   storeSOSAlert e st sid active loc ui district state =
     (True, st\<lparr>calls := calls st @ [AlertSet sid],
        sos_alerts := AList.update sid
          (merge_alert (alertData e sid active loc ui district state) (map_of (sos_alerts st) sid))
          (sos_alerts st)\<rparr>)"
  by (simp add: storeSOSAlert_def ENABLE_SOS_ALERT_SNAPSHOT_def Let_def)

section \<open>Stop requests and the block list\<close>

text \<open>Counterexample to claim C1 as stated: sender \<^verbatim>\<open>A\<close> has a block entry with
  \<^verbatim>\<open>blocked = true\<close>, and the stop request of \<^verbatim>\<open>A\<close> is answered 403. The block check
  of the handler stands before the dispatch on \<^verbatim>\<open>sos_type\<close>.\<close>

theorem blocked_stop_is_rejected:
  "status (fst (post_sos env_ok store_blocked stop_req)) = 403 \<and>
   sos_type stop_req = Some ''stop'' \<and>
   map_of (blocked_users store_blocked) ''A'' = Some block_A \<and> blocked block_A = True"
  by (simp add: post_sos_403 isSenderBlocked_iff truthy_def stop_req_def store_blocked_def
      empty_store_def block_A_def env_ok_def)

text \<open>Claim C1, amended: a stop request passes the same block check as a raise. A stop
  request that carries \<^verbatim>\<open>sender_id\<close>, \<^verbatim>\<open>sos_type = "stop"\<close> and \<^verbatim>\<open>location\<close> is
  answered 403 exactly when the lookup of the block list succeeds and finds an entry of the
  sender with \<^verbatim>\<open>blocked = true\<close>; the rejected request changes nothing.\<close>

theorem stop_consults_block_list:
  assumes "sender_id req = Some sid" and "sid \<noteq> []" and "sos_type req = Some ''stop''"
    and "location req \<noteq> None"
  shows "(status (fst (post_sos e st req)) = 403 \<longleftrightarrow>
            blocked_get_error e = None \<and>
            (\<exists>b. map_of (blocked_users st) sid = Some b \<and> blocked b = True)) \<and>
         (status (fst (post_sos e st req)) = 403 \<longrightarrow> snd (post_sos e st req) = st)"
proof -
  have t: "truthy (sender_id req)" using assms by (simp add: truthy_def)
  have "status (fst (post_sos e st req)) = 403 \<longleftrightarrow> isSenderBlocked e st sid"
    using assms by (simp add: post_sos_403 truthy_def)
  moreover have "snd (post_sos e st req) = st" if "isSenderBlocked e st sid"
    using that post_sos_stop [OF t assms(3,4)] assms(1) by simp
  ultimately show ?thesis by (simp add: isSenderBlocked_iff)
qed

theorem stop_consults_block_list_witness:
  "status (fst (post_sos env_ok store_blocked stop_req)) = 403 \<and>
   snd (post_sos env_ok store_blocked stop_req) = store_blocked \<and>
   status (fst (post_sos env_ok empty_store stop_req)) \<noteq> 403"
proof -
  have a: "sender_id stop_req = Some ''A''" "''A'' \<noteq> []" "sos_type stop_req = Some ''stop''"
    "location stop_req \<noteq> None"
    by (simp_all add: stop_req_def)
  have b: "blocked_get_error env_ok = None"
    "map_of (blocked_users store_blocked) ''A'' = Some block_A" "blocked block_A = True"
    "map_of (blocked_users empty_store) ''A'' = None"
    by (simp_all add: env_ok_def store_blocked_def empty_store_def block_A_def)
  show ?thesis
    using stop_consults_block_list [OF a, of env_ok store_blocked]
      stop_consults_block_list [OF a, of env_ok empty_store] b
    by simp
qed

section \<open>The block check fails open\<close>

text \<open>Claim C5: \<^verbatim>\<open>isSenderBlocked\<close> returns true if and only if a block entry of the
  sender exists and its \<^verbatim>\<open>blocked\<close> field is true; when the lookup of the block list
  itself fails it returns false, so that no request to \<^verbatim>\<open>POST /sos\<close> is answered 403
  because of the failure.\<close>

theorem isSenderBlocked_fails_open:
  "(blocked_get_error e = None \<longrightarrow>
      (isSenderBlocked e st sid \<longleftrightarrow>
         (\<exists>b. map_of (blocked_users st) sid = Some b \<and> blocked b = True))) \<and>
   (blocked_get_error e \<noteq> None \<longrightarrow>
      \<not> isSenderBlocked e st sid \<and> status (fst (post_sos e st req)) \<noteq> 403)"
proof -
  have fail_open: "\<not> isSenderBlocked e st s" if "blocked_get_error e \<noteq> None" for s
    using that by (auto simp add: isSenderBlocked_def)
  have "isSenderBlocked e st sid \<longleftrightarrow>
         (\<exists>b. map_of (blocked_users st) sid = Some b \<and> blocked b = True)"
    if "blocked_get_error e = None"
    using that by (simp add: isSenderBlocked_def BLOCKED_USERS_def split: option.split)
  moreover have "status (fst (post_sos e st req)) \<noteq> 403" if "blocked_get_error e \<noteq> None"
    using fail_open [OF that] by (simp add: post_sos_403)
  ultimately show ?thesis using fail_open by blast
qed

theorem isSenderBlocked_fails_open_witness:
  "isSenderBlocked env_ok store_blocked ''A'' \<and>
   \<not> isSenderBlocked env_ok empty_store ''A'' \<and>
   \<not> isSenderBlocked env_lookup_fails store_blocked ''A'' \<and>
   status (fst (post_sos env_lookup_fails store_blocked raise_req)) \<noteq> 403"
proof -
  have a: "blocked_get_error env_ok = None" "blocked_get_error env_lookup_fails \<noteq> None"
    "map_of (blocked_users store_blocked) ''A'' = Some block_A" "blocked block_A = True"
    "map_of (blocked_users empty_store) ''A'' = None"
    by (simp_all add: env_ok_def env_lookup_fails_def store_blocked_def empty_store_def
        block_A_def)
  show ?thesis
    using isSenderBlocked_fails_open [of env_ok store_blocked "''A''" raise_req]
      isSenderBlocked_fails_open [of env_ok empty_store "''A''" raise_req]
      isSenderBlocked_fails_open [of env_lookup_fails store_blocked "''A''" raise_req] a
    by simp
qed

section \<open>The required fields of a stop request\<close>

text \<open>Counterexample to claim C6 as stated: the stop request of the end-to-end scenario,
  with sender, type and district but without \<^verbatim>\<open>location\<close>, is answered 400.\<close>

theorem stop_without_location_is_rejected:
  "status (fst (post_sos env_ok empty_store stop_req_no_location)) = 400 \<and>
   sos_type stop_req_no_location = Some ''stop'' \<and>
   sender_id stop_req_no_location = Some ''A'' \<and>
   opt_district stop_req_no_location = Some ''udupi'' \<and>
   location stop_req_no_location = None"
  by (simp add: post_sos_def stop_req_no_location_def missing_fields_def opt_district_def
      info_district_def)

text \<open>Claim C6, amended: \<^verbatim>\<open>location\<close> is required for every request to
  \<^verbatim>\<open>POST /sos\<close>, stop requests included. A request without \<^verbatim>\<open>location\<close> is answered
  400 and changes nothing; a stop request with sender, \<^verbatim>\<open>location\<close> and a non-empty
  district, from a sender that is not blocked, succeeds with 200 when the push send
  succeeds.\<close>

theorem location_required_for_stop:
  "(location req = None \<longrightarrow>
      status (fst (post_sos e st req)) = 400 \<and> snd (post_sos e st req) = st) \<and>
   (truthy (sender_id req) \<and> sos_type req = Some ''stop'' \<and> location req \<noteq> None \<and>
    truthy (opt_district req) \<and> \<not> isSenderBlocked e st (the (sender_id req)) \<and>
    send_result e = Inr mid \<longrightarrow>
      status (fst (post_sos e st req)) = 200)"
proof -
  have "status (fst (post_sos e st req)) = 400 \<and> snd (post_sos e st req) = st"
    if "location req = None"
    using that by (simp add: post_sos_def missing_fields_def)
  moreover have "status (fst (post_sos e st req)) = 200"
    if "truthy (sender_id req)" "sos_type req = Some ''stop''" "location req \<noteq> None"
      "truthy (opt_district req)" "\<not> isSenderBlocked e st (the (sender_id req))"
      "send_result e = Inr mid"
    using that post_sos_stop [OF that(1,2,3)] by (simp add: sos_stop_def Let_def)
  ultimately show ?thesis by blast
qed

theorem location_required_for_stop_witness:
  "status (fst (post_sos env_ok empty_store stop_req_no_location)) = 400 \<and>
   snd (post_sos env_ok empty_store stop_req_no_location) = empty_store \<and>
   status (fst (post_sos env_ok empty_store stop_req)) = 200"
proof -
  have a: "location stop_req_no_location = None" "truthy (sender_id stop_req)"
    "sos_type stop_req = Some ''stop''" "location stop_req \<noteq> None"
    "truthy (opt_district stop_req)" "send_result env_ok = Inr ''projects/rrt/messages/1''"
    by (simp_all add: stop_req_no_location_def stop_req_def truthy_def opt_district_def
        info_district_def env_ok_def)
  have b: "\<not> isSenderBlocked env_ok empty_store (the (sender_id stop_req))"
    by (simp add: isSenderBlocked_iff empty_store_def)
  show ?thesis
    using location_required_for_stop [where req = stop_req_no_location and e = env_ok
          and st = empty_store]
      location_required_for_stop [where req = stop_req and e = env_ok and st = empty_store
          and mid = "''projects/rrt/messages/1''"] a b
    by simp
qed

section \<open>A storage error of the snapshot write\<close>

text \<open>Counterexample to claim C7 as stated: the write of the snapshot is rejected, and
  the raise is still answered 200 while no row is stored.\<close>

theorem snapshot_failure_is_swallowed:
  "status (fst (post_sos env_store_fails empty_store raise_req)) = 200 \<and>
   sos_alerts (snd (post_sos env_store_fails empty_store raise_req)) = [] \<and>
   alerts_set_error env_store_fails = Some ''deadline exceeded''"
  by (simp add: post_sos_def sos_alert_def storeSOSAlert_failed isSenderBlocked_iff truthy_def
      raise_req_def env_store_fails_def env_ok_def empty_store_def opt_district_def info0_def
      Let_def)

text \<open>Claim C7, amended: when the write of the alert snapshot fails with a storage error
  during a raise or a resolve (after a successful push send), \<^verbatim>\<open>storeSOSAlert\<close> catches
  the error and the handler ignores its result: the request is answered 200 and the
  stored rows stay as they were.\<close>

theorem storage_error_still_200:
  assumes "truthy (sender_id req)"
    and "sos_type req = Some ''stop'' \<or> sos_type req = Some ''sos_alert''"
    and "location req \<noteq> None" and "truthy (opt_district req)"
    and "\<not> isSenderBlocked e st (the (sender_id req))"
    and "send_result e = Inr mid" and "alerts_set_error e = Some err"
  shows "status (fst (post_sos e st req)) = 200 \<and>
         sos_alerts (snd (post_sos e st req)) = sos_alerts st"
  using assms(2)
proof
  assume ty: "sos_type req = Some ''stop''"
  show ?thesis
    using assms post_sos_stop [OF assms(1) ty assms(3)]
    by (simp add: sos_stop_def storeSOSAlert_failed Let_def)
next
  assume ty: "sos_type req = Some ''sos_alert''"
  show ?thesis
    using assms post_sos_alert [OF assms(1) ty assms(3)]
    by (simp add: sos_alert_def storeSOSAlert_failed Let_def)
qed

theorem storage_error_still_200_witness:
  "status (fst (post_sos env_store_fails store_active stop_req)) = 200 \<and>
   sos_alerts (snd (post_sos env_store_fails store_active stop_req)) = sos_alerts store_active"
proof -
  have a: "truthy (sender_id stop_req)"
    "sos_type stop_req = Some ''stop'' \<or> sos_type stop_req = Some ''sos_alert''"
    "location stop_req \<noteq> None" "truthy (opt_district stop_req)"
    "send_result env_store_fails = Inr ''projects/rrt/messages/1''"
    "alerts_set_error env_store_fails = Some ''deadline exceeded''"
    by (simp_all add: stop_req_def truthy_def opt_district_def info_district_def
        env_store_fails_def env_ok_def)
  have b: "\<not> isSenderBlocked env_store_fails store_active (the (sender_id stop_req))"
    by (simp add: isSenderBlocked_iff store_active_def empty_store_def)
  show ?thesis
    using storage_error_still_200 [OF a(1,2,3,4) b a(5,6)] by simp
qed

section \<open>The order of push send and snapshot write\<close>

text \<open>Counterexample to claim C3 as stated: the push send of a raise fails, the request is
  answered 500 and no snapshot of the attempted raise is stored; the only call issued is
  the send. In the run where the send succeeds the send comes first and the write of the
  snapshot second.\<close>

theorem failed_send_leaves_no_snapshot:
  "status (fst (post_sos env_send_fails empty_store raise_req)) = 500 \<and>
   sos_alerts (snd (post_sos env_send_fails empty_store raise_req)) = [] \<and>
   calls (snd (post_sos env_send_fails empty_store raise_req)) =
     [MessagingSend (alertMessage env_send_fails ''A'' ''udupi'' loc0 raise_req)] \<and>
   calls (snd (post_sos env_ok empty_store raise_req)) =
     [MessagingSend (alertMessage env_ok ''A'' ''udupi'' loc0 raise_req), AlertSet ''A'']"
  by (simp add: post_sos_def sos_alert_def storeSOSAlert_calls isSenderBlocked_iff truthy_def
      raise_req_def env_send_fails_def env_ok_def empty_store_def opt_district_def info0_def
      send_failed_def Let_def)

text \<open>Claim C3, amended: for every raise or resolve that passes validation and the block
  check, the push send is attempted first and the snapshot is written only after the
  send has succeeded. A failed send is answered 500 and leaves the stores as they were (the
  send is the only call issued); after a successful send the calls are the send followed
  by the snapshot write.\<close>

theorem send_precedes_snapshot:
  assumes "truthy (sender_id req)"
    and "sos_type req = Some ''stop'' \<or> sos_type req = Some ''sos_alert''"
    and "location req \<noteq> None" and "truthy (opt_district req)"
    and "\<not> isSenderBlocked e st (the (sender_id req))"
  shows "\<exists>m. (\<forall>err. send_result e = Inl err \<longrightarrow>
                 status (fst (post_sos e st req)) = 500 \<and>
                 snd (post_sos e st req) = st\<lparr>calls := calls st @ [MessagingSend m]\<rparr>) \<and>
             (\<forall>mid. send_result e = Inr mid \<longrightarrow>
                 status (fst (post_sos e st req)) = 200 \<and>
                 calls (snd (post_sos e st req)) =
                   calls st @ [MessagingSend m, AlertSet (the (sender_id req))])"
  using assms(2)
proof
  assume ty: "sos_type req = Some ''stop''"
  show ?thesis
    using assms post_sos_stop [OF assms(1) ty assms(3)]
    by (intro exI [of _ "stopMessage e (the (sender_id req)) (the (opt_district req)) req"])
      (simp add: sos_stop_def storeSOSAlert_calls send_failed_def Let_def)
next
  assume ty: "sos_type req = Some ''sos_alert''"
  show ?thesis
    using assms post_sos_alert [OF assms(1) ty assms(3)]
    by (intro exI [of _ "alertMessage e (the (sender_id req)) (the (opt_district req))
          (the (location req)) req"])
      (simp add: sos_alert_def storeSOSAlert_calls send_failed_def Let_def)
qed

theorem send_precedes_snapshot_witness:
  "\<exists>m. status (fst (post_sos env_send_fails store_active stop_req)) = 500 \<and>
       snd (post_sos env_send_fails store_active stop_req) =
         store_active\<lparr>calls := calls store_active @ [MessagingSend m]\<rparr>"
proof -
  have a: "truthy (sender_id stop_req)"
    "sos_type stop_req = Some ''stop'' \<or> sos_type stop_req = Some ''sos_alert''"
    "location stop_req \<noteq> None" "truthy (opt_district stop_req)"
    by (simp_all add: stop_req_def truthy_def opt_district_def info_district_def)
  have b: "\<not> isSenderBlocked env_send_fails store_active (the (sender_id stop_req))"
    by (simp add: isSenderBlocked_iff store_active_def empty_store_def)
  have c: "send_result env_send_fails = Inl ''messaging/internal-error''"
    by (simp add: env_send_fails_def env_ok_def)
  show ?thesis
    using send_precedes_snapshot [OF a b] c by auto
qed

section \<open>The sweep of the scheduled job\<close>

lemma map_entry_keys: "map fst (AList.map_entry k f al) = map fst al"
  by (induction al) auto

lemma fold_map_entry_keys: "map fst (fold (\<lambda>k. AList.map_entry k f) ks al) = map fst al"
  by (induction ks arbitrary: al) (simp_all add: map_entry_keys)

lemma fold_map_entry_lookup:
  "distinct ks \<Longrightarrow>
   map_of (fold (\<lambda>k. AList.map_entry k f) ks al) k =
     (if k \<in> set ks then map_option f (map_of al k) else map_of al k)"
proof (induction ks arbitrary: al)
  case Nil
  then show ?case by simp
next
  case (Cons a ks)
  then show ?case
    by (auto simp add: map_of_map_entry split: option.split)
qed

lemma filtered_key_iff:
  assumes "distinct (map fst al)" and "map_of al k = Some d"
  shows "k \<in> set (map fst (filter P al)) \<longleftrightarrow> P (k, d)"
proof
  assume "k \<in> set (map fst (filter P al))"
  then obtain d' where "(k, d') \<in> set al" "P (k, d')" by auto
  with assms show "P (k, d)" by simp
next
  assume "P (k, d)"
  moreover have "(k, d) \<in> set al" using assms by simp
  ultimately show "k \<in> set (map fst (filter P al))" by force
qed

lemma expireOldAlerts_ok:
  assumes "alerts_query_error e = None" and "batch_commit_error e = None"
  shows "expireOldAlerts e st =
     (let old = filter (\<lambda>kd. is_active (snd kd) \<and>
                  older_than (now e - ALERT_EXPIRATION_THRESHOLD_MS) (snd kd)) (sos_alerts st)
      in (Inr \<lparr>expired = length old,
               checked = length (filter (\<lambda>kd. is_active (snd kd)) (sos_alerts st)),
               enabled = True, expiredAlerts = map (expired_entry e) old\<rparr>,
          if old = [] then st
          else st\<lparr>calls := calls st @ [BatchCommit (map fst old)],
                 sos_alerts := fold (\<lambda>k. AList.map_entry k (expire_doc e)) (map fst old)
                   (sos_alerts st)\<rparr>))"
  using assms by (simp add: expireOldAlerts_def ENABLE_SOS_ALERT_SNAPSHOT_def Let_def)

lemma sweep_rows:
  assumes "distinct (map fst (sos_alerts st))" and "map_of (sos_alerts st) k = Some d"
  shows "map_of (sos_alerts (snd (expireOldAlerts e st))) k = Some d \<or>
         map_of (sos_alerts (snd (expireOldAlerts e st))) k = Some (expire_doc e d)"
proof -
  have ks: "distinct (map fst (filter P (sos_alerts st)))" for P
    using assms(1) by (simp add: distinct_map_filter)
  show ?thesis
    using assms(2)
    by (simp add: expireOldAlerts_def Let_def fold_map_entry_lookup [OF ks]
        split: option.split)
qed

text \<open>Claim C4: in a store whose rows have distinct ids, a sweep whose query and batch
  commit go through returns a summary, counts as expired exactly the rows that are active
  with a timestamp older than \<open>now - 1 hour\<close>, sets exactly those rows to
  \<^verbatim>\<open>active = false\<close> with \<^verbatim>\<open>expiredBy = "scheduled_job"\<close> and \<^verbatim>\<open>expiredAt\<close> stamped,
  leaves every other row as it was, keeps the set of rows, and issues no push send.\<close>

theorem sweep_expires_exactly_stale:
  assumes "distinct (map fst (sos_alerts st))"
    and "alerts_query_error e = None" and "batch_commit_error e = None"
  shows "\<exists>summary cs.
     expireOldAlerts e st = (Inr summary, snd (expireOldAlerts e st)) \<and>
     expired summary =
       length (filter (\<lambda>kd. a_active (snd kd) = Some True \<and>
          (\<exists>t. a_timestamp (snd kd) = Some t \<and> t < now e - 60 * 60 * 1000)) (sos_alerts st)) \<and>
     (\<forall>k d. map_of (sos_alerts st) k = Some d \<longrightarrow>
        map_of (sos_alerts (snd (expireOldAlerts e st))) k =
          Some (if a_active d = Some True \<and>
                   (\<exists>t. a_timestamp d = Some t \<and> t < now e - 60 * 60 * 1000)
                then d\<lparr>a_active := Some False, a_expiredAt := Some (server_time e),
                       a_expiredBy := Some ''scheduled_job''\<rparr>
                else d)) \<and>
     map fst (sos_alerts (snd (expireOldAlerts e st))) = map fst (sos_alerts st) \<and>
     calls (snd (expireOldAlerts e st)) = calls st @ cs \<and>
     (\<forall>m. MessagingSend m \<notin> set cs)"
proof -
  let ?stale = "\<lambda>kd :: string \<times> alert_doc. is_active (snd kd) \<and>
      older_than (now e - ALERT_EXPIRATION_THRESHOLD_MS) (snd kd)"
  let ?old = "filter ?stale (sos_alerts st)"
  have stale_eq: "?stale kd \<longleftrightarrow> a_active (snd kd) = Some True \<and>
      (\<exists>t. a_timestamp (snd kd) = Some t \<and> t < now e - 60 * 60 * 1000)" for kd
    by (simp add: is_active_def older_than_def ALERT_EXPIRATION_THRESHOLD_MS_def
        split: option.split)
  have ks: "distinct (map fst ?old)"
    using assms(1) by (simp add: distinct_map_filter)
  have res: "expireOldAlerts e st =
     (Inr \<lparr>expired = length ?old,
           checked = length (filter (\<lambda>kd. is_active (snd kd)) (sos_alerts st)),
           enabled = True, expiredAlerts = map (expired_entry e) ?old\<rparr>,
      if ?old = [] then st
      else st\<lparr>calls := calls st @ [BatchCommit (map fst ?old)],
             sos_alerts := fold (\<lambda>k. AList.map_entry k (expire_doc e)) (map fst ?old)
               (sos_alerts st)\<rparr>)"
    using expireOldAlerts_ok [OF assms(2,3), of st] by (simp add: Let_def)
  have rows: "map_of (sos_alerts (snd (expireOldAlerts e st))) k =
      Some (if ?stale (k, d) then expire_doc e d else d)"
    if "map_of (sos_alerts st) k = Some d" for k d
  proof (cases "?old = []")
    case True
    then have "k \<notin> set (map fst ?old)" by simp
    then have "\<not> ?stale (k, d)"
      using filtered_key_iff [OF assms(1) that, of ?stale] by simp
    with True that show ?thesis by (auto simp add: res)
  next
    case False
    then show ?thesis
      using that filtered_key_iff [OF assms(1) that, of ?stale]
      by (simp add: res fold_map_entry_lookup [OF ks])
  qed
  have rows2: "map_of (sos_alerts (snd (expireOldAlerts e st))) k =
      Some (if a_active d = Some True \<and>
               (\<exists>t. a_timestamp d = Some t \<and> t < now e - 60 * 60 * 1000)
            then d\<lparr>a_active := Some False, a_expiredAt := Some (server_time e),
                   a_expiredBy := Some ''scheduled_job''\<rparr>
            else d)"
    if m: "map_of (sos_alerts st) k = Some d" for k d
  proof (cases "?stale (k, d)")
    case True
    moreover from True have "a_active d = Some True \<and>
        (\<exists>t. a_timestamp d = Some t \<and> t < now e - 60 * 60 * 1000)"
      using stale_eq [of "(k, d)"] by auto
    ultimately show ?thesis using rows [OF m] by (auto simp add: expire_doc_def)
  next
    case False
    moreover from False have "\<not> (a_active d = Some True \<and>
        (\<exists>t. a_timestamp d = Some t \<and> t < now e - 60 * 60 * 1000))"
      using stale_eq [of "(k, d)"] by auto
    ultimately show ?thesis using rows [OF m] by auto
  qed
  have keys: "map fst (sos_alerts (snd (expireOldAlerts e st))) = map fst (sos_alerts st)"
    by (simp add: res fold_map_entry_keys)
  have log: "calls (snd (expireOldAlerts e st)) =
      calls st @ (if ?old = [] then [] else [BatchCommit (map fst ?old)])"
    by (simp add: res)
  have count: "length ?old =
      length (filter (\<lambda>kd. a_active (snd kd) = Some True \<and>
          (\<exists>t. a_timestamp (snd kd) = Some t \<and> t < now e - 60 * 60 * 1000)) (sos_alerts st))"
    by (simp only: stale_eq)
  show ?thesis
    apply (intro exI [of _ "\<lparr>expired = length ?old,
           checked = length (filter (\<lambda>kd. is_active (snd kd)) (sos_alerts st)),
           enabled = True, expiredAlerts = map (expired_entry e) ?old\<rparr>"]
        exI [of _ "if ?old = [] then [] else [BatchCommit (map fst ?old)]"] conjI)
    subgoal by (simp add: res)
    subgoal using count by simp
    subgoal using rows2 by blast
    subgoal by (rule keys)
    subgoal by (rule log)
    subgoal by simp
    done
qed


theorem sweep_expires_exactly_stale_witness:
  "map_of (sos_alerts (snd (expireOldAlerts env_ok store_sweep))) ''A'' =
     Some ((row_A 1700000000000)\<lparr>a_active := Some False, a_expiredAt := Some 1700003700001,
        a_expiredBy := Some ''scheduled_job''\<rparr>) \<and>
   map_of (sos_alerts (snd (expireOldAlerts env_ok store_sweep))) ''B'' =
     map_of (sos_alerts store_sweep) ''B'' \<and>
   map_of (sos_alerts (snd (expireOldAlerts env_ok store_sweep))) ''C'' =
     map_of (sos_alerts store_sweep) ''C'' \<and>
   (\<exists>summary. fst (expireOldAlerts env_ok store_sweep) = Inr summary \<and> expired summary = 1)"
proof -
  have h: "distinct (map fst (sos_alerts store_sweep))" "alerts_query_error env_ok = None"
    "batch_commit_error env_ok = None"
    by (simp_all add: store_sweep_def empty_store_def env_ok_def)
  have rows: "map_of (sos_alerts store_sweep) ''A'' = Some (row_A 1700000000000)"
    "map_of (sos_alerts store_sweep) ''B'' =
       Some ((row_A 1700003100000)\<lparr>a_sender_id := Some ''B'', a_district := Some ''mangalore''\<rparr>)"
    "map_of (sos_alerts store_sweep) ''C'' =
       Some ((row_A 1690000000000)\<lparr>a_sender_id := Some ''C'', a_active := Some False\<rparr>)"
    by (simp_all add: store_sweep_def empty_store_def)
  have n: "length (filter (\<lambda>kd. a_active (snd kd) = Some True \<and>
          (\<exists>t. a_timestamp (snd kd) = Some t \<and> t < now env_ok - 60 * 60 * 1000))
          (sos_alerts store_sweep)) = 1"
    by (simp add: store_sweep_def empty_store_def env_ok_def row_A_def)
  from sweep_expires_exactly_stale [OF h] obtain summary cs where
    r: "expireOldAlerts env_ok store_sweep = (Inr summary, snd (expireOldAlerts env_ok store_sweep))"
    and c: "expired summary = 1"
    and m: "\<And>k d. map_of (sos_alerts store_sweep) k = Some d \<Longrightarrow>
        map_of (sos_alerts (snd (expireOldAlerts env_ok store_sweep))) k =
          Some (if a_active d = Some True \<and>
                   (\<exists>t. a_timestamp d = Some t \<and> t < now env_ok - 60 * 60 * 1000)
                then d\<lparr>a_active := Some False, a_expiredAt := Some (server_time env_ok),
                       a_expiredBy := Some ''scheduled_job''\<rparr>
                else d)"
    unfolding n by blast
  have "fst (expireOldAlerts env_ok store_sweep) = Inr summary"
    using r by (metis fst_conv)
  with c m [OF rows(1)] m [OF rows(2)] m [OF rows(3)] rows show ?thesis
    by (simp add: row_A_def env_ok_def)
qed

section \<open>The payload of an inactive row\<close>

text \<open>Counterexample to claim C2 as stated: after the stop request of the scenario the row
  of sender \<^verbatim>\<open>A\<close> has \<^verbatim>\<open>active = false\<close> together with the location and the reporter
  data of the raise; the same holds for the row that the sweep expires.\<close>

theorem resolved_row_keeps_payload:
  "map_option a_active (map_of (sos_alerts (snd (post_sos env_ok store_active stop_req))) ''A'') =
     Some (Some False) \<and>
   map_option a_location (map_of (sos_alerts (snd (post_sos env_ok store_active stop_req))) ''A'') =
     Some (Some loc0) \<and>
   map_option a_userInfo (map_of (sos_alerts (snd (post_sos env_ok store_active stop_req))) ''A'') =
     Some (Some user_Jane) \<and>
   map_option a_active (map_of (sos_alerts (snd (expireOldAlerts env_ok store_sweep))) ''A'') =
     Some (Some False) \<and>
   map_option a_location (map_of (sos_alerts (snd (expireOldAlerts env_ok store_sweep))) ''A'') =
     Some (Some loc0)"
proof -
  have "post_sos env_ok store_active stop_req =
      sos_stop env_ok store_active ''A'' stop_req"
    by (simp add: post_sos_def isSenderBlocked_iff truthy_def stop_req_def store_active_def
        empty_store_def)
  moreover have "alerts_set_error env_ok = None" "send_result env_ok = Inr ''projects/rrt/messages/1''"
    by (simp_all add: env_ok_def)
  ultimately have "map_of (sos_alerts (snd (post_sos env_ok store_active stop_req))) ''A'' =
      Some ((row_A 1700000000000)\<lparr>a_active := Some False, a_timestamp := Some 1700003700001\<rparr>)"
    by (simp add: sos_stop_def storeSOSAlert_written Let_def truthy_def opt_district_def
        stop_req_def info_district_def update_conv' merge_alert_def alertData_def
        merge_field_def store_active_def empty_store_def row_A_def env_ok_def)
  moreover have "map_of (sos_alerts (snd (expireOldAlerts env_ok store_sweep))) ''A'' =
      Some ((row_A 1700000000000)\<lparr>a_active := Some False, a_expiredAt := Some 1700003700001,
        a_expiredBy := Some ''scheduled_job''\<rparr>)"
    by (simp add: expireOldAlerts_def ENABLE_SOS_ALERT_SNAPSHOT_def
        ALERT_EXPIRATION_THRESHOLD_MS_def Let_def is_active_def older_than_def expire_doc_def
        store_sweep_def empty_store_def row_A_def env_ok_def)
  ultimately show ?thesis by (simp add: row_A_def)
qed

text \<open>Claim C2, amended: a write that sets \<^verbatim>\<open>active\<close> to false leaves the payload of the
  row as it was. The write of a resolve (\<^verbatim>\<open>storeSOSAlert\<close> with \<^verbatim>\<open>active = false\<close>, merged
  into the stored document) yields a row with \<^verbatim>\<open>active = false\<close> whose location,
  reporter data, district and state are those of the row before (absent when there was no
  row); every row keeps these four fields through a sweep.\<close>

theorem inactive_write_keeps_payload:
  "(alerts_set_error e = None \<longrightarrow>
      (\<exists>d'. map_of (sos_alerts (snd (storeSOSAlert e st sid False loc ui district state))) sid
               = Some d' \<and>
            a_active d' = Some False \<and>
            a_location d' = (case map_of (sos_alerts st) sid of None \<Rightarrow> None
                             | Some d \<Rightarrow> a_location d) \<and>
            a_userInfo d' = (case map_of (sos_alerts st) sid of None \<Rightarrow> None
                             | Some d \<Rightarrow> a_userInfo d) \<and>
            a_district d' = (case map_of (sos_alerts st) sid of None \<Rightarrow> None
                             | Some d \<Rightarrow> a_district d) \<and>
            a_state d' = (case map_of (sos_alerts st) sid of None \<Rightarrow> None
                          | Some d \<Rightarrow> a_state d))) \<and>
   (distinct (map fst (sos_alerts st)) \<and> map_of (sos_alerts st) k = Some d0 \<longrightarrow>
      (\<exists>d'. map_of (sos_alerts (snd (expireOldAlerts e st))) k = Some d' \<and>
            a_location d' = a_location d0 \<and> a_userInfo d' = a_userInfo d0 \<and>
            a_district d' = a_district d0 \<and> a_state d' = a_state d0))"
proof (intro conjI impI)
  assume "alerts_set_error e = None"
  then show "\<exists>d'. map_of (sos_alerts (snd (storeSOSAlert e st sid False loc ui district state))) sid
               = Some d' \<and>
            a_active d' = Some False \<and>
            a_location d' = (case map_of (sos_alerts st) sid of None \<Rightarrow> None
                             | Some d \<Rightarrow> a_location d) \<and>
            a_userInfo d' = (case map_of (sos_alerts st) sid of None \<Rightarrow> None
                             | Some d \<Rightarrow> a_userInfo d) \<and>
            a_district d' = (case map_of (sos_alerts st) sid of None \<Rightarrow> None
                             | Some d \<Rightarrow> a_district d) \<and>
            a_state d' = (case map_of (sos_alerts st) sid of None \<Rightarrow> None
                          | Some d \<Rightarrow> a_state d)"
    by (simp add: storeSOSAlert_written update_conv' merge_alert_def alertData_def
        merge_field_def empty_alert_def split: option.split)
next
  assume "distinct (map fst (sos_alerts st)) \<and> map_of (sos_alerts st) k = Some d0"
  then have "map_of (sos_alerts (snd (expireOldAlerts e st))) k = Some d0 \<or>
         map_of (sos_alerts (snd (expireOldAlerts e st))) k = Some (expire_doc e d0)"
    using sweep_rows by blast
  then show "\<exists>d'. map_of (sos_alerts (snd (expireOldAlerts e st))) k = Some d' \<and>
            a_location d' = a_location d0 \<and> a_userInfo d' = a_userInfo d0 \<and>
            a_district d' = a_district d0 \<and> a_state d' = a_state d0"
    by (auto simp add: expire_doc_def)
qed

theorem inactive_write_keeps_payload_witness:
  "(\<exists>d'. map_of (sos_alerts (snd (storeSOSAlert env_ok store_active ''A'' False None None
              None None))) ''A'' = Some d' \<and>
         a_active d' = Some False \<and> a_location d' = Some loc0 \<and>
         a_userInfo d' = Some user_Jane \<and> a_district d' = Some ''udupi'' \<and>
         a_state d' = Some ''KARNATAKA'') \<and>
   (\<exists>d'. map_of (sos_alerts (snd (expireOldAlerts env_ok store_sweep))) ''A'' = Some d' \<and>
         a_location d' = Some loc0 \<and> a_userInfo d' = Some user_Jane \<and>
         a_district d' = Some ''udupi'' \<and> a_state d' = Some ''KARNATAKA'')"
proof -
  have h: "alerts_set_error env_ok = None"
    "distinct (map fst (sos_alerts store_sweep)) \<and>
     map_of (sos_alerts store_sweep) ''A'' = Some (row_A 1700000000000)"
    "map_of (sos_alerts store_active) ''A'' = Some (row_A 1700000000000)"
    by (simp_all add: env_ok_def store_sweep_def store_active_def empty_store_def)
  show ?thesis
    using inactive_write_keeps_payload [where e = env_ok and st = store_active and sid = "''A''"
        and loc = None and ui = None and district = None and state = None]
      inactive_write_keeps_payload [where e = env_ok and st = store_sweep and k = "''A''"
        and ?d0.0 = "row_A 1700000000000"] h
    by (simp add: row_A_def)
qed

section \<open>The region derived from the location text\<close>

lemma last_segment_after_comma:
  "CHR '','' \<notin> set tok \<Longrightarrow> last_segment (pre @ CHR '','' # tok) = tok"
proof -
  assume a: "CHR '','' \<notin> set tok"
  have "takeWhile (\<lambda>c. c \<noteq> CHR '','') (rev tok @ CHR '','' # rev pre) = rev tok"
    using a by (induction tok rule: rev_induct) auto
  then show ?thesis by (simp add: last_segment_def)
qed

lemma last_segment_no_comma:
  "CHR '','' \<notin> set tok \<Longrightarrow> last_segment tok = tok"
proof -
  assume a: "CHR '','' \<notin> set tok"
  have "takeWhile (\<lambda>c. c \<noteq> CHR '','') (rev tok) = rev tok"
    using a by (intro takeWhile_eq_all_conv [THEN iffD2]) auto
  then show ?thesis by (simp only: last_segment_def rev_rev_ident)
qed

text \<open>Counterexample to claim C8 as stated: sender \<^verbatim>\<open>A\<close> has a stored row with state
  \<^verbatim>\<open>KERALA\<close> and raises an alert with the location text \<^verbatim>\<open>Manipal,\<close>. The raise is
  answered 200; the last comma-separated token, trimmed and upper-cased, is the empty
  string, and the stored state is still \<^verbatim>\<open>KERALA\<close>.\<close>

theorem blank_token_keeps_old_region:
  "status (fst (post_sos env_ok store_kerala raise_req_blank)) = 200 \<and>
   map_option a_state (map_of (sos_alerts (snd (post_sos env_ok store_kerala raise_req_blank))) ''A'')
     = Some (Some ''KERALA'') \<and>
   opt_location raise_req_blank = Some ''Manipal,'' \<and>
   toUpperCase (trim (last_segment ''Manipal,'')) = []"
proof -
  have "post_sos env_ok store_kerala raise_req_blank =
      sos_alert env_ok store_kerala ''A'' loc0 raise_req_blank"
    by (simp add: post_sos_def isSenderBlocked_iff truthy_def raise_req_blank_def raise_req_def
        store_kerala_def empty_store_def)
  moreover have "alerts_set_error env_ok = None" "send_result env_ok = Inr ''projects/rrt/messages/1''"
    by (simp_all add: env_ok_def)
  moreover have "derive_state ''Manipal,'' = []"
    by (simp add: derive_state_def last_segment_def trim_def toUpperCase_def)
  ultimately show ?thesis
    by (simp add: sos_alert_def storeSOSAlert_written Let_def truthy_def opt_district_def
        opt_location_def str_or_def raise_req_blank_def raise_req_def info0_def update_conv'
        merge_alert_def alertData_def merge_field_def store_kerala_def empty_store_def
        row_A_def derive_state_def)
qed

text \<open>Claim C8, amended: on a successful raise whose snapshot write goes through and
  whose reporter supplies a non-empty location text, the stored state is the last
  comma-separated token of that text, trimmed and upper-cased, when this is not empty (so
  \<^verbatim>\<open>Manipal, Karnataka\<close> stores \<^verbatim>\<open>KARNATAKA\<close>); when it is empty the state field is not
  written and the row keeps the state it had.\<close>

theorem stored_region_is_last_token:
  assumes "sender_id req = Some sid" and "sid \<noteq> []" and "sos_type req = Some ''sos_alert''"
    and "location req \<noteq> None" and "truthy (opt_district req)"
    and "\<not> isSenderBlocked e st sid"
    and "send_result e = Inr mid" and "alerts_set_error e = None"
    and "opt_location req = Some l" and "l \<noteq> []"
    and "l = pre @ CHR '','' # tok \<or> l = tok" and "CHR '','' \<notin> set tok"
  shows "status (fst (post_sos e st req)) = 200 \<and>
         map_option a_state (map_of (sos_alerts (snd (post_sos e st req))) sid) =
           Some (if toUpperCase (trim tok) \<noteq> [] then Some (toUpperCase (trim tok))
                 else (case map_of (sos_alerts st) sid of None \<Rightarrow> None
                       | Some d \<Rightarrow> a_state d))"
proof -
  have t: "truthy (sender_id req)" using assms(1,2) by (simp add: truthy_def)
  have seg: "last_segment l = tok"
    using assms(11,12) last_segment_after_comma last_segment_no_comma by blast
  have p: "post_sos e st req = sos_alert e st sid (the (location req)) req"
    using post_sos_alert [OF t assms(3,4)] assms(1,6) by simp
  show ?thesis
    using assms(5,7,8,9,10) seg
    by (simp add: p sos_alert_def storeSOSAlert_written Let_def str_or_def update_conv'
        merge_alert_def alertData_def merge_field_def empty_alert_def derive_state_def truthy_def
        split: option.split)
qed

theorem stored_region_is_last_token_witness:
  "status (fst (post_sos env_ok empty_store raise_req)) = 200 \<and>
   map_option a_state (map_of (sos_alerts (snd (post_sos env_ok empty_store raise_req))) ''A'') =
     Some (Some ''KARNATAKA'')"
proof -
  have h: "sender_id raise_req = Some ''A''" "''A'' \<noteq> []" "sos_type raise_req = Some ''sos_alert''"
    "location raise_req \<noteq> None" "truthy (opt_district raise_req)"
    "\<not> isSenderBlocked env_ok empty_store ''A''"
    "send_result env_ok = Inr ''projects/rrt/messages/1''" "alerts_set_error env_ok = None"
    "opt_location raise_req = Some ''Manipal, Karnataka''" "''Manipal, Karnataka'' \<noteq> []"
    "''Manipal, Karnataka'' = ''Manipal'' @ CHR '','' # '' Karnataka'' \<or>
     ''Manipal, Karnataka'' = '' Karnataka''"
    "CHR '','' \<notin> set '' Karnataka''"
    by (simp_all add: raise_req_def truthy_def opt_district_def opt_location_def info0_def
        isSenderBlocked_iff empty_store_def env_ok_def)
  have u: "toUpperCase (trim '' Karnataka'') = ''KARNATAKA''"
    by (simp add: toUpperCase_def trim_def is_space_def upper_char_def lower_letters_def
        upper_letters_def)
  show ?thesis
    using stored_region_is_last_token [OF h] by (simp add: u)
qed

section \<open>The district scope of the user listing\<close>

lemma update_fresh: "k \<notin> fst ` set al \<Longrightarrow> AList.update k v al = al @ [(k, v)]"
  by (induction al) auto

lemma build_userMap_fresh:
  "distinct (map fst docs) \<Longrightarrow> fst ` set acc \<inter> fst ` set docs = {} \<Longrightarrow>
   build_userMap docs acc =
     acc @ map (\<lambda>kd. (fst kd, the (user_of_doc (fst kd) (snd kd))))
            (filter (\<lambda>kd. user_of_doc (fst kd) (snd kd) \<noteq> None) docs)"
proof (induction docs arbitrary: acc)
  case Nil
  then show ?case by simp
next
  case (Cons kd docs)
  obtain k d where kd: "kd = (k, d)" by (cases kd)
  have fresh: "k \<notin> fst ` set acc" "k \<notin> fst ` set docs"
    using Cons.prems kd by auto
  have dis: "distinct (map fst docs)" using Cons.prems by simp
  show ?case
  proof (cases "user_of_doc k d")
    case None
    have "fst ` set acc \<inter> fst ` set docs = {}" using Cons.prems by auto
    from Cons.IH [OF dis this] None kd show ?thesis by simp
  next
    case (Some x)
    have "fst ` set (acc @ [(k, x)]) \<inter> fst ` set docs = {}"
      using Cons.prems fresh by auto
    from Cons.IH [OF dis this] Some kd fresh show ?thesis
      by (simp add: update_fresh)
  qed
qed

lemma user_of_doc_sender: "user_of_doc k d = Some x \<Longrightarrow> u_sender_id x = k"
  by (auto simp add: user_of_doc_def Let_def split: if_splits)

lemma merge_blocked_sender: "u_sender_id (snd (merge_blocked bd (k, x))) = u_sender_id x"
  by (simp add: merge_blocked_def split: option.split)

lemma merge_blocked_search:
  "matches_search s (snd (merge_blocked bd (k, x))) = matches_search s x"
  by (simp add: merge_blocked_def matches_search_def split: option.split)

lemma set_insert_by: "set (insert_by cmp x ys) = insert x (set ys)"
  by (induction ys) auto

lemma length_insert_by: "length (insert_by cmp x ys) = Suc (length ys)"
  by (induction ys) auto

lemma set_sort_by_name: "set (sort_by_name cmp xs) = set xs"
  by (induction xs) (simp_all add: sort_by_name_def set_insert_by)

lemma length_sort_by_name: "length (sort_by_name cmp xs) = length xs"
  by (induction xs) (simp_all add: sort_by_name_def length_insert_by)

lemma set_slice: "set (slice xs a b) \<subseteq> set xs"
  unfolding slice_def Let_def
  by (meson set_take_subset set_drop_subset subset_trans)

lemma slice_all: "int (length xs) \<le> b \<Longrightarrow> slice xs 0 b = xs"
  by (simp add: slice_def slice_index_def Let_def)

lemma list_users_ok:
  assumes "alerts_query_error e = None" and "blocked_query_error e = None"
  shows "\<exists>users tp.
     list_users e st isSuper ds q =
       UsersPage (slice users ((int_or (q_page q) 1 - 1) * int_or (q_pageSize q) 50)
                    ((int_or (q_page q) 1 - 1) * int_or (q_pageSize q) 50 + int_or (q_pageSize q) 50))
         (length users) (int_or (q_page q) 1) (int_or (q_pageSize q) 50) tp \<and>
     users = sort_by_name (localeCompare e)
       (filter (\<lambda>x. str_or (q_search q) [] = [] \<or>
                    matches_search (toLowerCase (str_or (q_search q) [])) x)
          (map (\<lambda>kx. snd (merge_blocked
                  (filter (\<lambda>kb. blocked (snd kb) = True) (blocked_users st)) kx))
             (build_userMap (users_query_docs st isSuper ds) [])))"
proof (cases "str_or (q_search q) [] = []")
  case True
  then show ?thesis using assms by (simp add: list_users_def Let_def comp_def)
next
  case False
  then show ?thesis using assms by (simp add: list_users_def Let_def comp_def)
qed


lemma listing_of_docs:
  assumes "alerts_query_error e = None" and "blocked_query_error e = None"
    and "distinct (map fst (users_query_docs st isSuper ds))"
  shows "\<exists>us tp.
     list_users e st isSuper ds q =
       UsersPage us
         (length (filter
              (\<lambda>kd. \<exists>x. user_of_doc (fst kd) (snd kd) = Some x \<and>
                 (str_or (q_search q) [] = [] \<or>
                  matches_search (toLowerCase (str_or (q_search q) [])) x))
              (users_query_docs st isSuper ds)))
         (int_or (q_page q) 1) (int_or (q_pageSize q) 50) tp \<and>
     u_sender_id ` set us \<subseteq> fst ` set (filter
              (\<lambda>kd. \<exists>x. user_of_doc (fst kd) (snd kd) = Some x \<and>
                 (str_or (q_search q) [] = [] \<or>
                  matches_search (toLowerCase (str_or (q_search q) [])) x))
              (users_query_docs st isSuper ds)) \<and>
     (int_or (q_page q) 1 = 1 \<and>
      int (length (filter
              (\<lambda>kd. \<exists>x. user_of_doc (fst kd) (snd kd) = Some x \<and>
                 (str_or (q_search q) [] = [] \<or>
                  matches_search (toLowerCase (str_or (q_search q) [])) x))
              (users_query_docs st isSuper ds))) \<le> int_or (q_pageSize q) 50 \<longrightarrow>
        u_sender_id ` set us = fst ` set (filter
              (\<lambda>kd. \<exists>x. user_of_doc (fst kd) (snd kd) = Some x \<and>
                 (str_or (q_search q) [] = [] \<or>
                  matches_search (toLowerCase (str_or (q_search q) [])) x))
              (users_query_docs st isSuper ds)))"
proof -
  define docs where "docs = users_query_docs st isSuper ds"
  define bd where "bd = filter (\<lambda>kb. blocked (snd kb) = True) (blocked_users st)"
  define S where "S = (\<lambda>x. str_or (q_search q) [] = [] \<or>
      matches_search (toLowerCase (str_or (q_search q) [])) x)"
  define H where "H = (\<lambda>kd :: string \<times> alert_doc. user_of_doc (fst kd) (snd kd) \<noteq> None)"
  define h where "h = (\<lambda>kd :: string \<times> alert_doc. (fst kd, the (user_of_doc (fst kd) (snd kd))))"
  define g where "g = (\<lambda>kx. snd (merge_blocked bd kx))"
  define Lp where "Lp = (\<lambda>kd :: string \<times> alert_doc. \<exists>x. user_of_doc (fst kd) (snd kd) = Some x \<and> S x)"
  from list_users_ok [OF assms(1,2), of st isSuper ds q] obtain users tp where
    page: "list_users e st isSuper ds q =
       UsersPage (slice users ((int_or (q_page q) 1 - 1) * int_or (q_pageSize q) 50)
                    ((int_or (q_page q) 1 - 1) * int_or (q_pageSize q) 50 + int_or (q_pageSize q) 50))
         (length users) (int_or (q_page q) 1) (int_or (q_pageSize q) 50) tp"
    and users: "users = sort_by_name (localeCompare e) (filter S (map g (build_userMap docs [])))"
    unfolding docs_def bd_def S_def g_def by blast
  have bm: "build_userMap docs [] = map h (filter H docs)"
    using build_userMap_fresh [of docs "[]"] assms(3) by (simp add: docs_def h_def H_def)
  have keep: "filter (S \<circ> (g \<circ> h)) (filter H docs) = filter Lp docs"
  proof -
    have "H kd \<and> S (g (h kd)) \<longleftrightarrow> Lp kd" for kd
      by (cases "user_of_doc (fst kd) (snd kd)")
        (simp_all add: H_def Lp_def g_def h_def S_def merge_blocked_search)
    then show ?thesis by (simp add: conj_commute cong: filter_cong)
  qed
  have ys: "filter S (map g (build_userMap docs [])) = map (g \<circ> h) (filter Lp docs)"
    by (simp add: bm filter_map keep [symmetric] comp_def)
  have sender: "u_sender_id ((g \<circ> h) kd) = fst kd" if "Lp kd" for kd
    using that by (auto simp add: Lp_def g_def h_def merge_blocked_sender user_of_doc_sender)
  have len: "length users = length (filter Lp docs)"
    by (simp add: users ys length_sort_by_name)
  have ids: "u_sender_id ` set users = fst ` set (filter Lp docs)"
  proof -
    have "u_sender_id ` set users = (\<lambda>kd. u_sender_id ((g \<circ> h) kd)) ` set (filter Lp docs)"
      by (simp add: users ys set_sort_by_name image_image)
    also have "\<dots> = fst ` set (filter Lp docs)"
      using sender by (intro image_cong) auto
    finally show ?thesis .
  qed
  let ?us = "slice users ((int_or (q_page q) 1 - 1) * int_or (q_pageSize q) 50)
                    ((int_or (q_page q) 1 - 1) * int_or (q_pageSize q) 50 + int_or (q_pageSize q) 50)"
  have sub: "u_sender_id ` set ?us \<subseteq> fst ` set (filter Lp docs)"
    using set_slice [of users] ids by blast
  have all: "u_sender_id ` set ?us = fst ` set (filter Lp docs)"
    if "int_or (q_page q) 1 = 1" "int (length (filter Lp docs)) \<le> int_or (q_pageSize q) 50"
    using that slice_all [of users "int_or (q_pageSize q) 50"] ids len by simp
  have final: "list_users e st isSuper ds q =
       UsersPage ?us (length (filter Lp docs)) (int_or (q_page q) 1) (int_or (q_pageSize q) 50) tp \<and>
     u_sender_id ` set ?us \<subseteq> fst ` set (filter Lp docs) \<and>
     (int_or (q_page q) 1 = 1 \<and>
      int (length (filter Lp docs)) \<le> int_or (q_pageSize q) 50 \<longrightarrow>
        u_sender_id ` set ?us = fst ` set (filter Lp docs))"
  proof (intro conjI impI)
    show "list_users e st isSuper ds q =
       UsersPage ?us (length (filter Lp docs)) (int_or (q_page q) 1) (int_or (q_pageSize q) 50) tp"
      using page len by simp
    show "u_sender_id ` set ?us \<subseteq> fst ` set (filter Lp docs)" by (rule sub)
    assume "int_or (q_page q) 1 = 1 \<and>
      int (length (filter Lp docs)) \<le> int_or (q_pageSize q) 50"
    then show "u_sender_id ` set ?us = fst ` set (filter Lp docs)"
      using all by (elim conjE)
  qed
  show ?thesis
    apply (rule exI [of _ ?us])
    apply (rule exI [of _ tp])
    apply (rule final [unfolded Lp_def S_def docs_def])
    done
qed


text \<open>Claim C10: in \<^verbatim>\<open>GET /admin/users\<close> the district restriction is applied only when
  the list of assigned districts of a regular admin is not empty. An active regular admin
  whose list is empty (or missing) is not restricted to zero districts: the answer is the
  one a super admin gets, and when the queries go through it lists the users of every
  district. Its total counts every stored row with user data that matches the search,
  whatever the district, and the senders on the page are among these rows, and are all of
  them when the first page is large enough. With a non-empty list the same holds for the
  rows whose district is in the list, and only for them.\<close>

theorem empty_district_list_is_unrestricted:
  assumes "\<not> isSuperAdmin (p_email u)" and "admins_get_error e = None"
    and "map_of (admins st) (p_email u) = Some a" and "ad_active a = Some True"
  shows "(ad_assignedDistricts a = Some [] \<or> ad_assignedDistricts a = None \<longrightarrow>
      (\<forall>s. isSuperAdmin (p_email s) \<longrightarrow>
         get_admin_users e st u q = get_admin_users e st s q) \<and>
      (alerts_query_error e = None \<and> blocked_query_error e = None \<and>
       distinct (map fst (sos_alerts st)) \<longrightarrow>
       (\<exists>us tp.
     get_admin_users e st u q =
       UsersPage us
         (length (filter
              (\<lambda>kd. \<exists>x. user_of_doc (fst kd) (snd kd) = Some x \<and>
                 (str_or (q_search q) [] = [] \<or>
                  matches_search (toLowerCase (str_or (q_search q) [])) x))
              (sos_alerts st)))
         (int_or (q_page q) 1) (int_or (q_pageSize q) 50) tp \<and>
     u_sender_id ` set us \<subseteq> fst ` set (filter
              (\<lambda>kd. \<exists>x. user_of_doc (fst kd) (snd kd) = Some x \<and>
                 (str_or (q_search q) [] = [] \<or>
                  matches_search (toLowerCase (str_or (q_search q) [])) x))
              (sos_alerts st)) \<and>
     (int_or (q_page q) 1 = 1 \<and>
      int (length (filter
              (\<lambda>kd. \<exists>x. user_of_doc (fst kd) (snd kd) = Some x \<and>
                 (str_or (q_search q) [] = [] \<or>
                  matches_search (toLowerCase (str_or (q_search q) [])) x))
              (sos_alerts st))) \<le> int_or (q_pageSize q) 50 \<longrightarrow>
        u_sender_id ` set us = fst ` set (filter
              (\<lambda>kd. \<exists>x. user_of_doc (fst kd) (snd kd) = Some x \<and>
                 (str_or (q_search q) [] = [] \<or>
                  matches_search (toLowerCase (str_or (q_search q) [])) x))
              (sos_alerts st)))))) \<and>
    (ad_assignedDistricts a = Some ds \<and> ds \<noteq> [] \<and>
     alerts_query_error e = None \<and> blocked_query_error e = None \<and>
     distinct (map fst (sos_alerts st)) \<longrightarrow>
       (\<exists>us tp.
     get_admin_users e st u q =
       UsersPage us
         (length (filter
              (\<lambda>kd. (\<exists>dist. a_district (snd kd) = Some dist \<and> dist \<in> set ds) \<and>
                 (\<exists>x. user_of_doc (fst kd) (snd kd) = Some x \<and>
                    (str_or (q_search q) [] = [] \<or>
                     matches_search (toLowerCase (str_or (q_search q) [])) x)))
              (sos_alerts st)))
         (int_or (q_page q) 1) (int_or (q_pageSize q) 50) tp \<and>
     u_sender_id ` set us \<subseteq> fst ` set (filter
              (\<lambda>kd. (\<exists>dist. a_district (snd kd) = Some dist \<and> dist \<in> set ds) \<and>
                 (\<exists>x. user_of_doc (fst kd) (snd kd) = Some x \<and>
                    (str_or (q_search q) [] = [] \<or>
                     matches_search (toLowerCase (str_or (q_search q) [])) x)))
              (sos_alerts st)) \<and>
     (int_or (q_page q) 1 = 1 \<and>
      int (length (filter
              (\<lambda>kd. (\<exists>dist. a_district (snd kd) = Some dist \<and> dist \<in> set ds) \<and>
                 (\<exists>x. user_of_doc (fst kd) (snd kd) = Some x \<and>
                    (str_or (q_search q) [] = [] \<or>
                     matches_search (toLowerCase (str_or (q_search q) [])) x)))
              (sos_alerts st))) \<le> int_or (q_pageSize q) 50 \<longrightarrow>
        u_sender_id ` set us = fst ` set (filter
              (\<lambda>kd. (\<exists>dist. a_district (snd kd) = Some dist \<and> dist \<in> set ds) \<and>
                 (\<exists>x. user_of_doc (fst kd) (snd kd) = Some x \<and>
                    (str_or (q_search q) [] = [] \<or>
                     matches_search (toLowerCase (str_or (q_search q) [])) x)))
              (sos_alerts st)))))"
proof (intro conjI impI allI)
  fix s :: principal
  assume empty: "ad_assignedDistricts a = Some [] \<or> ad_assignedDistricts a = None"
    and sup: "isSuperAdmin (p_email s)"
  have docs: "users_query_docs st b [] = sos_alerts st" for b
    by (simp add: users_query_docs_def)
  have l: "list_users e st False [] q = list_users e st True [] q"
    unfolding list_users_def docs by (rule refl)
  have "get_admin_users e st u q = list_users e st False [] q"
    using assms empty by (auto simp add: get_admin_users_def getAdmin_def Let_def)
  moreover have "get_admin_users e st s q = list_users e st True [] q"
    using sup by (simp add: get_admin_users_def Let_def)
  ultimately show "get_admin_users e st u q = get_admin_users e st s q"
    using l by simp
next
  assume empty: "ad_assignedDistricts a = Some [] \<or> ad_assignedDistricts a = None"
    and ok: "alerts_query_error e = None \<and> blocked_query_error e = None \<and>
       distinct (map fst (sos_alerts st))"
  have docs: "users_query_docs st False [] = sos_alerts st"
    by (simp add: users_query_docs_def)
  have geq: "get_admin_users e st u q = list_users e st False [] q"
    using assms empty by (auto simp add: get_admin_users_def getAdmin_def Let_def)
  have ex: "(\<exists>us tp.
     list_users e st False [] q =
       UsersPage us
         (length (filter
              (\<lambda>kd. \<exists>x. user_of_doc (fst kd) (snd kd) = Some x \<and>
                 (str_or (q_search q) [] = [] \<or>
                  matches_search (toLowerCase (str_or (q_search q) [])) x))
              (users_query_docs st False [])))
         (int_or (q_page q) 1) (int_or (q_pageSize q) 50) tp \<and>
     u_sender_id ` set us \<subseteq> fst ` set (filter
              (\<lambda>kd. \<exists>x. user_of_doc (fst kd) (snd kd) = Some x \<and>
                 (str_or (q_search q) [] = [] \<or>
                  matches_search (toLowerCase (str_or (q_search q) [])) x))
              (users_query_docs st False [])) \<and>
     (int_or (q_page q) 1 = 1 \<and>
      int (length (filter
              (\<lambda>kd. \<exists>x. user_of_doc (fst kd) (snd kd) = Some x \<and>
                 (str_or (q_search q) [] = [] \<or>
                  matches_search (toLowerCase (str_or (q_search q) [])) x))
              (users_query_docs st False []))) \<le> int_or (q_pageSize q) 50 \<longrightarrow>
        u_sender_id ` set us = fst ` set (filter
              (\<lambda>kd. \<exists>x. user_of_doc (fst kd) (snd kd) = Some x \<and>
                 (str_or (q_search q) [] = [] \<or>
                  matches_search (toLowerCase (str_or (q_search q) [])) x))
              (users_query_docs st False []))))"
    using listing_of_docs [of e st False "[]" q] ok by (simp add: docs)
  show "(\<exists>us tp.
     get_admin_users e st u q =
       UsersPage us
         (length (filter
              (\<lambda>kd. \<exists>x. user_of_doc (fst kd) (snd kd) = Some x \<and>
                 (str_or (q_search q) [] = [] \<or>
                  matches_search (toLowerCase (str_or (q_search q) [])) x))
              (sos_alerts st)))
         (int_or (q_page q) 1) (int_or (q_pageSize q) 50) tp \<and>
     u_sender_id ` set us \<subseteq> fst ` set (filter
              (\<lambda>kd. \<exists>x. user_of_doc (fst kd) (snd kd) = Some x \<and>
                 (str_or (q_search q) [] = [] \<or>
                  matches_search (toLowerCase (str_or (q_search q) [])) x))
              (sos_alerts st)) \<and>
     (int_or (q_page q) 1 = 1 \<and>
      int (length (filter
              (\<lambda>kd. \<exists>x. user_of_doc (fst kd) (snd kd) = Some x \<and>
                 (str_or (q_search q) [] = [] \<or>
                  matches_search (toLowerCase (str_or (q_search q) [])) x))
              (sos_alerts st))) \<le> int_or (q_pageSize q) 50 \<longrightarrow>
        u_sender_id ` set us = fst ` set (filter
              (\<lambda>kd. \<exists>x. user_of_doc (fst kd) (snd kd) = Some x \<and>
                 (str_or (q_search q) [] = [] \<or>
                  matches_search (toLowerCase (str_or (q_search q) [])) x))
              (sos_alerts st))))"
    using ex unfolding geq docs .
next
  assume scoped: "ad_assignedDistricts a = Some ds \<and> ds \<noteq> [] \<and>
     alerts_query_error e = None \<and> blocked_query_error e = None \<and>
     distinct (map fst (sos_alerts st))"
  have docs: "users_query_docs st False ds =
      filter (\<lambda>kd. \<exists>dist. a_district (snd kd) = Some dist \<and> dist \<in> set ds) (sos_alerts st)"
  proof -
    have "(case x of None \<Rightarrow> False | Some d \<Rightarrow> d \<in> set ds) \<longleftrightarrow>
        (\<exists>dist. x = Some dist \<and> dist \<in> set ds)" for x :: "string option"
      by (cases x) auto
    then show ?thesis using scoped by (simp add: users_query_docs_def)
  qed
  have dis: "distinct (map fst (users_query_docs st False ds))"
    using scoped by (simp add: docs distinct_map_filter)
  have q1: "alerts_query_error e = None" "blocked_query_error e = None"
    using scoped by simp_all
  have geq: "get_admin_users e st u q = list_users e st False ds q"
    using assms scoped by (auto simp add: get_admin_users_def getAdmin_def Let_def)
  have ex: "(\<exists>us tp.
     list_users e st False ds q =
       UsersPage us
         (length (filter
              (\<lambda>kd. \<exists>x. user_of_doc (fst kd) (snd kd) = Some x \<and>
                 (str_or (q_search q) [] = [] \<or>
                  matches_search (toLowerCase (str_or (q_search q) [])) x))
              (users_query_docs st False ds)))
         (int_or (q_page q) 1) (int_or (q_pageSize q) 50) tp \<and>
     u_sender_id ` set us \<subseteq> fst ` set (filter
              (\<lambda>kd. \<exists>x. user_of_doc (fst kd) (snd kd) = Some x \<and>
                 (str_or (q_search q) [] = [] \<or>
                  matches_search (toLowerCase (str_or (q_search q) [])) x))
              (users_query_docs st False ds)) \<and>
     (int_or (q_page q) 1 = 1 \<and>
      int (length (filter
              (\<lambda>kd. \<exists>x. user_of_doc (fst kd) (snd kd) = Some x \<and>
                 (str_or (q_search q) [] = [] \<or>
                  matches_search (toLowerCase (str_or (q_search q) [])) x))
              (users_query_docs st False ds))) \<le> int_or (q_pageSize q) 50 \<longrightarrow>
        u_sender_id ` set us = fst ` set (filter
              (\<lambda>kd. \<exists>x. user_of_doc (fst kd) (snd kd) = Some x \<and>
                 (str_or (q_search q) [] = [] \<or>
                  matches_search (toLowerCase (str_or (q_search q) [])) x))
              (users_query_docs st False ds))))"
    by (rule listing_of_docs [OF q1 dis])
  have feq: "filter
              (\<lambda>kd. \<exists>x. user_of_doc (fst kd) (snd kd) = Some x \<and>
                 (str_or (q_search q) [] = [] \<or>
                  matches_search (toLowerCase (str_or (q_search q) [])) x))
              (users_query_docs st False ds) = filter
              (\<lambda>kd. (\<exists>dist. a_district (snd kd) = Some dist \<and> dist \<in> set ds) \<and>
                 (\<exists>x. user_of_doc (fst kd) (snd kd) = Some x \<and>
                    (str_or (q_search q) [] = [] \<or>
                     matches_search (toLowerCase (str_or (q_search q) [])) x)))
              (sos_alerts st)"
    by (simp add: docs)
  show "(\<exists>us tp.
     get_admin_users e st u q =
       UsersPage us
         (length (filter
              (\<lambda>kd. (\<exists>dist. a_district (snd kd) = Some dist \<and> dist \<in> set ds) \<and>
                 (\<exists>x. user_of_doc (fst kd) (snd kd) = Some x \<and>
                    (str_or (q_search q) [] = [] \<or>
                     matches_search (toLowerCase (str_or (q_search q) [])) x)))
              (sos_alerts st)))
         (int_or (q_page q) 1) (int_or (q_pageSize q) 50) tp \<and>
     u_sender_id ` set us \<subseteq> fst ` set (filter
              (\<lambda>kd. (\<exists>dist. a_district (snd kd) = Some dist \<and> dist \<in> set ds) \<and>
                 (\<exists>x. user_of_doc (fst kd) (snd kd) = Some x \<and>
                    (str_or (q_search q) [] = [] \<or>
                     matches_search (toLowerCase (str_or (q_search q) [])) x)))
              (sos_alerts st)) \<and>
     (int_or (q_page q) 1 = 1 \<and>
      int (length (filter
              (\<lambda>kd. (\<exists>dist. a_district (snd kd) = Some dist \<and> dist \<in> set ds) \<and>
                 (\<exists>x. user_of_doc (fst kd) (snd kd) = Some x \<and>
                    (str_or (q_search q) [] = [] \<or>
                     matches_search (toLowerCase (str_or (q_search q) [])) x)))
              (sos_alerts st))) \<le> int_or (q_pageSize q) 50 \<longrightarrow>
        u_sender_id ` set us = fst ` set (filter
              (\<lambda>kd. (\<exists>dist. a_district (snd kd) = Some dist \<and> dist \<in> set ds) \<and>
                 (\<exists>x. user_of_doc (fst kd) (snd kd) = Some x \<and>
                    (str_or (q_search q) [] = [] \<or>
                     matches_search (toLowerCase (str_or (q_search q) [])) x)))
              (sos_alerts st))))"
    using ex unfolding geq feq .
qed

theorem empty_district_list_is_unrestricted_witness:
  "get_admin_users env_ok store_scoped user_ops first_page =
     get_admin_users env_ok store_scoped user_super first_page \<and>
   (\<exists>us tp. get_admin_users env_ok store_scoped user_ops first_page = UsersPage us 3 1 50 tp \<and>
      u_sender_id ` set us = {''A'', ''B'', ''C''}) \<and>
   (\<exists>us tp. get_admin_users env_ok store_scoped user_udupi first_page = UsersPage us 2 1 50 tp \<and>
      u_sender_id ` set us = {''A'', ''C''})"
proof -
  have h: "\<not> isSuperAdmin (p_email user_ops)" "admins_get_error env_ok = None"
    "map_of (admins store_scoped) (p_email user_ops) = Some admin_ops"
    "ad_active admin_ops = Some True"
    by (simp_all add: isSuperAdmin_def SUPER_ADMINS_def user_ops_def env_ok_def
        store_scoped_def admin_ops_def)
  have h': "\<not> isSuperAdmin (p_email user_udupi)" "admins_get_error env_ok = None"
    "map_of (admins store_scoped) (p_email user_udupi) = Some admin_udupi"
    "ad_active admin_udupi = Some True"
    by (simp_all add: isSuperAdmin_def SUPER_ADMINS_def user_udupi_def env_ok_def
        store_scoped_def admin_udupi_def admin_ops_def)
  have c: "ad_assignedDistricts admin_ops = Some []"
    "ad_assignedDistricts admin_udupi = Some [''udupi'']"
    "isSuperAdmin (p_email user_super)"
    "alerts_query_error env_ok = None" "blocked_query_error env_ok = None"
    "int_or (q_page first_page) 1 = 1" "int_or (q_pageSize first_page) 50 = 50"
    "str_or (q_search first_page) [] = []"
    by (simp_all add: admin_ops_def admin_udupi_def isSuperAdmin_def SUPER_ADMINS_def
        user_super_def env_ok_def first_page_def int_or_def str_or_def)
  have rows: "sos_alerts store_scoped =
     [(''A'', row_A 1700000000000),
      (''B'', (row_A 1700003100000)\<lparr>a_sender_id := Some ''B'', a_district := Some ''mangalore''\<rparr>),
      (''C'', (row_A 1690000000000)\<lparr>a_sender_id := Some ''C'', a_active := Some False\<rparr>)]"
    by (simp add: store_scoped_def store_admins_def store_sweep_def empty_store_def)
  have u: "user_of_doc k (row_A t) \<noteq> None"
    "user_of_doc k ((row_A t)\<lparr>a_sender_id := Some ''B'', a_district := Some ''mangalore''\<rparr>) \<noteq> None"
    "user_of_doc k ((row_A t)\<lparr>a_sender_id := Some ''C'', a_active := Some False\<rparr>) \<noteq> None"
    for k t
    by (simp_all add: user_of_doc_def row_A_def user_Jane_def truthy_def Let_def)
  have d: "a_district (row_A t) = Some ''udupi''"
    "a_district ((row_A t)\<lparr>a_sender_id := Some ''B'', a_district := Some ''mangalore''\<rparr>)
       = Some ''mangalore''"
    "a_district ((row_A t)\<lparr>a_sender_id := Some ''C'', a_active := Some False\<rparr>) = Some ''udupi''"
    for t
    by (simp_all add: row_A_def)
  have ok: "alerts_query_error env_ok = None \<and> blocked_query_error env_ok = None \<and>
      distinct (map fst (sos_alerts store_scoped))"
    by (simp add: c rows)
  note t1 = empty_district_list_is_unrestricted [OF h, where ds = "[]" and q = first_page]
  note emp = t1 [THEN conjunct1, THEN mp, OF disjI1, OF c(1)]
  have same: "get_admin_users env_ok store_scoped user_ops first_page =
      get_admin_users env_ok store_scoped user_super first_page"
    by (rule emp [THEN conjunct1, THEN spec, THEN mp, OF c(3)])
  have three: "Suc (Suc (Suc 0)) = 3" and two: "Suc (Suc 0) = 2"
    by simp_all
  have fl: "filter
        (\<lambda>kd. \<exists>x. user_of_doc (fst kd) (snd kd) = Some x \<and>
                  ([] = [] \<or> matches_search (toLowerCase []) x))
        [(''A'', row_A 1700000000000),
         (''B'', (row_A 1700003100000)\<lparr>a_sender_id := Some ''B'', a_district := Some ''mangalore''\<rparr>),
         (''C'', (row_A 1690000000000)\<lparr>a_sender_id := Some ''C'', a_active := Some False\<rparr>)] =
        [(''A'', row_A 1700000000000),
         (''B'', (row_A 1700003100000)\<lparr>a_sender_id := Some ''B'', a_district := Some ''mangalore''\<rparr>),
         (''C'', (row_A 1690000000000)\<lparr>a_sender_id := Some ''C'', a_active := Some False\<rparr>)]"
    using u by simp
  note every0 = emp [THEN conjunct2, THEN mp, OF ok, simplified c rows d, unfolded fl,
      simplified]
  from every0 obtain us where a: "(\<exists>tp. get_admin_users env_ok store_scoped user_ops first_page =
           UsersPage us (Suc (Suc (Suc 0))) 1 50 tp) \<and>
     u_sender_id ` set us \<subseteq> {''A'', ''B'', ''C''} \<and>
     u_sender_id ` set us = {''A'', ''B'', ''C''}" ..
  from a have "\<exists>tp. get_admin_users env_ok store_scoped user_ops first_page =
           UsersPage us (Suc (Suc (Suc 0))) 1 50 tp"
    by (rule conjunct1)
  then obtain tp where "get_admin_users env_ok store_scoped user_ops first_page =
           UsersPage us (Suc (Suc (Suc 0))) 1 50 tp" ..
  then have b: "get_admin_users env_ok store_scoped user_ops first_page = UsersPage us 3 1 50 tp"
    unfolding three .
  from a have i: "u_sender_id ` set us = {''A'', ''B'', ''C''}"
    by (rule conjunct2 [THEN conjunct2])
  have every: "\<exists>us tp. get_admin_users env_ok store_scoped user_ops first_page =
        UsersPage us 3 1 50 tp \<and> u_sender_id ` set us = {''A'', ''B'', ''C''}"
    by (rule exI [of _ us], rule exI [of _ tp], rule conjI [OF b i])
  note t2 = empty_district_list_is_unrestricted [OF h', where ds = "[''udupi'']"
      and q = first_page]
  have sc: "ad_assignedDistricts admin_udupi = Some [''udupi''] \<and> [''udupi''] \<noteq> [] \<and>
     alerts_query_error env_ok = None \<and> blocked_query_error env_ok = None \<and>
     distinct (map fst (sos_alerts store_scoped))"
    using ok c(2) by simp
  have fl2: "filter
        (\<lambda>kd. (\<exists>dist. a_district (snd kd) = Some dist \<and> dist \<in> set [''udupi'']) \<and>
                 (\<exists>x. user_of_doc (fst kd) (snd kd) = Some x \<and>
                    ([] = [] \<or> matches_search (toLowerCase []) x)))
        [(''A'', row_A 1700000000000),
         (''B'', (row_A 1700003100000)\<lparr>a_sender_id := Some ''B'', a_district := Some ''mangalore''\<rparr>),
         (''C'', (row_A 1690000000000)\<lparr>a_sender_id := Some ''C'', a_active := Some False\<rparr>)] =
        [(''A'', row_A 1700000000000),
         (''C'', (row_A 1690000000000)\<lparr>a_sender_id := Some ''C'', a_active := Some False\<rparr>)]"
    using u by (simp add: d)
  note scoped0 = t2 [THEN conjunct2, THEN mp, OF sc, simplified c rows d, unfolded fl2,
      simplified]
  from scoped0 obtain us' where a': "(\<exists>tp. get_admin_users env_ok store_scoped user_udupi first_page =
           UsersPage us' (Suc (Suc 0)) 1 50 tp) \<and>
     u_sender_id ` set us' \<subseteq> {''A'', ''C''} \<and>
     u_sender_id ` set us' = {''A'', ''C''}" ..
  from a' have "\<exists>tp. get_admin_users env_ok store_scoped user_udupi first_page =
           UsersPage us' (Suc (Suc 0)) 1 50 tp"
    by (rule conjunct1)
  then obtain tp' where "get_admin_users env_ok store_scoped user_udupi first_page =
           UsersPage us' (Suc (Suc 0)) 1 50 tp'" ..
  then have b': "get_admin_users env_ok store_scoped user_udupi first_page =
      UsersPage us' 2 1 50 tp'"
    unfolding two .
  from a' have i': "u_sender_id ` set us' = {''A'', ''C''}"
    by (rule conjunct2 [THEN conjunct2])
  have scoped: "\<exists>us tp. get_admin_users env_ok store_scoped user_udupi first_page =
        UsersPage us 2 1 50 tp \<and> u_sender_id ` set us = {''A'', ''C''}"
    by (rule exI [of _ us'], rule exI [of _ tp'], rule conjI [OF b' i'])
  show ?thesis
    by (intro conjI same every scoped)
qed

section \<open>Super admin emails in the admin management routes\<close>

lemma authenticateUser_keeps_accounts:
  "admins (snd (authenticateUser e st h)) = admins st \<and>
   auth_users (snd (authenticateUser e st h)) = auth_users st"
  by (simp add: authenticateUser_def Let_def split: sum.split option.split)

lemma authenticateUser_rejects_401:
  "fst (authenticateUser e st h) = Inl r \<Longrightarrow> status r = 401"
  by (auto simp add: authenticateUser_def unauthorized_def Let_def
      split: sum.splits option.splits if_splits)

lemma authenticateUser_effect:
  "(snd (authenticateUser e st h) = st \<or>
          (\<exists>u. fst (authenticateUser e st h) = Inr u \<and> isSuperAdmin (p_email u) \<and>
               snd (authenticateUser e st h) =
                 st\<lparr>custom_claims := AList.update (p_uid u) True (custom_claims st)\<rparr>))"
  by (auto simp add: authenticateUser_def Let_def split: sum.split option.split)

lemma super_admin_route_rejecting:
  assumes "\<And>st1 u. status (fst (handler e st1 u)) = 400 \<and> snd (handler e st1 u) = st1"
  shows "status (fst (super_admin_route e st h handler)) =
           (case fst (authenticateUser e st h) of
              Inl r \<Rightarrow> 401
            | Inr u \<Rightarrow> if isSuperAdmin (p_email u) then 400 else 403) \<and>
         snd (super_admin_route e st h handler) = snd (authenticateUser e st h) \<and>
         admins (snd (super_admin_route e st h handler)) = admins st \<and>
         auth_users (snd (super_admin_route e st h handler)) = auth_users st"
proof (cases "authenticateUser e st h")
  case (Pair a st1)
  have keep: "admins st1 = admins st" "auth_users st1 = auth_users st"
    using authenticateUser_keeps_accounts [of e st h] Pair by simp_all
  show ?thesis
  proof (cases a)
    case (Inl r)
    then have "status r = 401"
      using authenticateUser_rejects_401 [of e st h r] Pair by simp
    with Inl Pair keep show ?thesis by (simp add: super_admin_route_def)
  next
    case (Inr u)
    with Pair keep assms [of st1 u] show ?thesis
      by (simp add: super_admin_route_def requireSuperAdmin_def isSuperAdmin_def)
  qed
qed

lemma create_admin_reserved:
  "isSuperAdmin email \<Longrightarrow> cb_email b = Some email \<Longrightarrow>
   status (fst (create_admin e st u b)) = 400 \<and> snd (create_admin e st u b) = st"
  by (simp add: create_admin_def Let_def)

lemma update_admin_reserved:
  "isSuperAdmin email \<Longrightarrow>
   status (fst (update_admin e st u email b)) = 400 \<and> snd (update_admin e st u email b) = st"
  by (simp add: update_admin_def)

lemma delete_admin_reserved:
  "isSuperAdmin email \<Longrightarrow>
   status (fst (delete_admin e st u email)) = 400 \<and> snd (delete_admin e st u email) = st"
  by (simp add: delete_admin_def)

text \<open>Counterexample to claim C9 as stated: a caller without an authorization header who
  asks to delete the account of a super admin email is answered 401, neither 400 nor
  403.\<close>

theorem unauthenticated_delete_is_401:
  "isSuperAdmin ''shamanthknr@gmail.com'' \<and>
   status (fst (delete_admin_admins env_ok store_admins None ''shamanthknr@gmail.com'')) = 401"
  by (simp add: isSuperAdmin_def SUPER_ADMINS_def delete_admin_admins_def super_admin_route_def
      authenticateUser_def truthy_def unauthorized_def)

text \<open>Claim C9, amended: for every caller and every email of the super admin list, the
  create, update and delete routes that target this email fail: with 401 when the
  authentication of the caller fails (no or an invalid credential, or a failure to set the
  super admin marker of the caller), with 403 when the authenticated caller is not a super
  admin, and with 400 when the caller is a super admin. No document of \<^verbatim>\<open>admins\<close> and no
  account of the identity provider is created or deleted, and the stores after the request
  are the stores after the authentication of the caller: they are unchanged, or the only
  change is the super admin marker that the authentication sets in the custom claims of
  the caller, who is then a super admin.\<close>

theorem super_admin_email_is_immutable:
  assumes "isSuperAdmin email" and "cb_email cb = Some email"
  shows "(snd (authenticateUser e st h) = st \<or>
          (\<exists>u. fst (authenticateUser e st h) = Inr u \<and> isSuperAdmin (p_email u) \<and>
               snd (authenticateUser e st h) =
                 st\<lparr>custom_claims := AList.update (p_uid u) True (custom_claims st)\<rparr>)) \<and>
         (status (fst (post_admin_admins e st h cb)) =
            (case fst (authenticateUser e st h) of
               Inl r \<Rightarrow> 401
             | Inr u \<Rightarrow> if isSuperAdmin (p_email u) then 400 else 403) \<and>
          snd (post_admin_admins e st h cb) = snd (authenticateUser e st h) \<and>
          admins (snd (post_admin_admins e st h cb)) = admins st \<and>
          auth_users (snd (post_admin_admins e st h cb)) = auth_users st) \<and>
         (status (fst (put_admin_admins e st h email ub)) =
            (case fst (authenticateUser e st h) of
               Inl r \<Rightarrow> 401
             | Inr u \<Rightarrow> if isSuperAdmin (p_email u) then 400 else 403) \<and>
          snd (put_admin_admins e st h email ub) = snd (authenticateUser e st h) \<and>
          admins (snd (put_admin_admins e st h email ub)) = admins st \<and>
          auth_users (snd (put_admin_admins e st h email ub)) = auth_users st) \<and>
         (status (fst (delete_admin_admins e st h email)) =
            (case fst (authenticateUser e st h) of
               Inl r \<Rightarrow> 401
             | Inr u \<Rightarrow> if isSuperAdmin (p_email u) then 400 else 403) \<and>
          snd (delete_admin_admins e st h email) = snd (authenticateUser e st h) \<and>
          admins (snd (delete_admin_admins e st h email)) = admins st \<and>
          auth_users (snd (delete_admin_admins e st h email)) = auth_users st)"
proof -
  note c = super_admin_route_rejecting [of "\<lambda>e' st' user. create_admin e' st' user cb" e st h,
      OF create_admin_reserved [OF assms], folded post_admin_admins_def]
  note p = super_admin_route_rejecting [of "\<lambda>e' st' user. update_admin e' st' user email ub" e st h,
      OF update_admin_reserved [OF assms(1)], folded put_admin_admins_def]
  note d = super_admin_route_rejecting [of "\<lambda>e' st' user. delete_admin e' st' user email" e st h,
      OF delete_admin_reserved [OF assms(1)], folded delete_admin_admins_def]
  show ?thesis
    by (intro conjI authenticateUser_effect c [THEN conjunct1] p [THEN conjunct1]
        d [THEN conjunct1] c [THEN conjunct2, THEN conjunct1] p [THEN conjunct2, THEN conjunct1]
        d [THEN conjunct2, THEN conjunct1]
        c [THEN conjunct2, THEN conjunct2, THEN conjunct1]
        p [THEN conjunct2, THEN conjunct2, THEN conjunct1]
        d [THEN conjunct2, THEN conjunct2, THEN conjunct1]
        c [THEN conjunct2, THEN conjunct2, THEN conjunct2]
        p [THEN conjunct2, THEN conjunct2, THEN conjunct2]
        d [THEN conjunct2, THEN conjunct2, THEN conjunct2])
qed

theorem super_admin_email_is_immutable_witness:
  "status (fst (post_admin_admins env_ok store_admins (Some ''Bearer super-token'') create_super))
     = 400 \<and>
   snd (post_admin_admins env_ok store_admins (Some ''Bearer super-token'') create_super)
     = store_admins\<lparr>custom_claims := [(''uid-super'', True)]\<rparr> \<and>
   admins (snd (post_admin_admins env_ok store_admins (Some ''Bearer super-token'') create_super))
     = admins store_admins \<and>
   auth_users (snd (post_admin_admins env_ok store_admins (Some ''Bearer super-token'') create_super))
     = auth_users store_admins \<and>
   status (fst (put_admin_admins env_ok store_admins (Some ''Bearer admin-token'')
     ''shamanthknr@gmail.com'' update_off)) = 403 \<and>
   snd (put_admin_admins env_ok store_admins (Some ''Bearer admin-token'')
     ''shamanthknr@gmail.com'' update_off) = store_admins \<and>
   status (fst (delete_admin_admins env_ok store_admins None ''shamanthknr@gmail.com'')) = 401 \<and>
   snd (delete_admin_admins env_ok store_admins None ''shamanthknr@gmail.com'') = store_admins"
proof -
  have h: "isSuperAdmin ''shamanthknr@gmail.com''"
    "cb_email create_super = Some ''shamanthknr@gmail.com''"
    by (simp_all add: isSuperAdmin_def SUPER_ADMINS_def create_super_def)
  have tok: "bearer_token ''Bearer super-token'' = ''super-token''"
    "bearer_token ''Bearer admin-token'' = ''admin-token''"
    by (simp_all add: bearer_token_def starts_with_def)
  have cc: "custom_claims store_admins = []"
    by (simp add: store_admins_def store_sweep_def empty_store_def)
  have a: "authenticateUser env_ok store_admins (Some ''Bearer super-token'') =
       (Inr user_super, store_admins\<lparr>custom_claims := [(''uid-super'', True)]\<rparr>)"
    "authenticateUser env_ok store_admins (Some ''Bearer admin-token'') =
       (Inr user_ops, store_admins)"
    "authenticateUser env_ok store_admins None =
       (Inl (unauthorized ''Missing or invalid authorization header''), store_admins)"
    by (simp_all add: authenticateUser_def tok truthy_def starts_with_def env_ok_def
        example_verify_def isSuperAdmin_def SUPER_ADMINS_def user_super_def user_ops_def Let_def
        cc)
  have s: "isSuperAdmin (p_email user_super)" "\<not> isSuperAdmin (p_email user_ops)"
    by (simp_all add: isSuperAdmin_def SUPER_ADMINS_def user_super_def user_ops_def)
  show ?thesis
    using super_admin_email_is_immutable [OF h, of env_ok store_admins
        "Some ''Bearer super-token''" update_off]
      super_admin_email_is_immutable [OF h, of env_ok store_admins
        "Some ''Bearer admin-token''" update_off]
      super_admin_email_is_immutable [OF h, of env_ok store_admins None update_off]
    by (simp add: a s)
qed

end
